theory Spec2Isabelle
  imports Complex_Main
begin

section \<open>Python values, errors and sequence primitives\<close>

text \<open>
  The development embeds \<^verbatim>\<open>src/post_processor.py\<close>. Python strings are modelled as
  \<^typ>\<open>string\<close> (ASCII text), Python exceptions as values of \<open>py_error\<close> on the left of
  a sum, and the floating point scores of the metrics as elements of a linear order
  (only their comparison matters) or as exact rationals (where a quotient is formed).
\<close>

datatype py_error =
  IndexError | KeyError | TypeError | AttributeError | ZeroDivisionError | ValueError
  | NetworkXPointlessConcept

text \<open>\<^verbatim>\<open>xs[:n]\<close>: a negative bound counts from the end of the sequence.\<close>

definition py_slice_to :: "'a list \<Rightarrow> int \<Rightarrow> 'a list" where
  "py_slice_to xs n =
     (if 0 \<le> n then take (nat n) xs else take (nat (int (length xs) + n)) xs)"

text \<open>
  \<^verbatim>\<open>sorted(items, key=lambda x: x[1], reverse=False)\<close> is a stable ascending sort;
  with \<^verbatim>\<open>reverse=True\<close> Python reverses, sorts stably and reverses again.
\<close>

definition py_sorted_by_score :: "bool \<Rightarrow> ('k \<times> 's::linorder) list \<Rightarrow> ('k \<times> 's) list" where
  "py_sorted_by_score reverse items =
     (if reverse then rev (sort_key snd (rev items)) else sort_key snd items)"

text \<open>\<^verbatim>\<open>xs[i]\<close> for an index that is not negative.\<close>

definition py_getitem :: "'a list \<Rightarrow> nat \<Rightarrow> py_error + 'a" where
  "py_getitem xs i = (if i < length xs then Inr (xs ! i) else Inl IndexError)"

section \<open>Python string operations\<close>

text \<open>\<^verbatim>\<open>xs[n:]\<close>.\<close>

definition py_slice_from :: "'a list \<Rightarrow> int \<Rightarrow> 'a list" where
  "py_slice_from xs n =
     (if 0 \<le> n then drop (nat n) xs else drop (nat (int (length xs) + n)) xs)"

text \<open>
  Whitespace as \<^verbatim>\<open>str.split()\<close> and \<^verbatim>\<open>str.strip()\<close> see it (the ASCII part).
\<close>

definition py_isspace :: "char \<Rightarrow> bool" where
  "py_isspace c = (c \<in> set [CHR '' '', CHR 0x09, CHR 0x0A, CHR 0x0B, CHR 0x0C, CHR 0x0D,
                             CHR 0x1C, CHR 0x1D, CHR 0x1E, CHR 0x1F])"

text \<open>
  \<^verbatim>\<open>s.split()\<close>: the maximal runs of non-whitespace characters; \<open>cur\<close> is the
  word being read.
\<close>

fun split_words :: "string \<Rightarrow> string \<Rightarrow> string list" where
  "split_words cur [] = (if cur = [] then [] else [cur])"
| "split_words cur (c # cs) =
     (if py_isspace c then (if cur = [] then split_words [] cs else cur # split_words [] cs)
      else split_words (cur @ [c]) cs)"

definition py_split :: "string \<Rightarrow> string list" where
  "py_split s = split_words [] s"

text \<open>\<^verbatim>\<open>sep.join(ws)\<close>.\<close>

fun py_join :: "string \<Rightarrow> string list \<Rightarrow> string" where
  "py_join sep [] = []"
| "py_join sep [w] = w"
| "py_join sep (w # ws) = w @ sep @ py_join sep ws"

definition py_startswith :: "string \<Rightarrow> string \<Rightarrow> bool" where
  "py_startswith s p = (take (length p) s = p)"

definition py_endswith :: "string \<Rightarrow> string \<Rightarrow> bool" where
  "py_endswith s p = (length p \<le> length s \<and> drop (length s - length p) s = p)"

text \<open>\<^verbatim>\<open>s.find(sub)\<close>: the first index at which \<open>sub\<close> occurs, or \<open>-1\<close>.\<close>

fun py_find :: "string \<Rightarrow> string \<Rightarrow> int" where
  "py_find [] sub = (if sub = [] then 0 else - 1)"
| "py_find (c # cs) sub =
     (if py_startswith (c # cs) sub then 0
      else (let r = py_find cs sub in if r < 0 then - 1 else r + 1))"

text \<open>
  \<^verbatim>\<open>s.replace(old, '')\<close>: the occurrences of \<open>old\<close> are removed from left to
  right without overlap. Every call in the module replaces by the empty string; an
  empty \<open>old\<close> leaves the string as it is.
\<close>

function py_remove :: "string \<Rightarrow> string \<Rightarrow> string" where
  "py_remove [] old = []"
| "py_remove (c # cs) old =
     (if old \<noteq> [] \<and> py_startswith (c # cs) old
      then py_remove (drop (length old) (c # cs)) old
      else c # py_remove cs old)"
  by pat_completeness auto
termination
  by (relation "measure (\<lambda>(s, old). length s)") (auto simp: py_startswith_def)

text \<open>
  \<^verbatim>\<open>re.findall(r'\(([^)]+)\)', text)\<close>: at an opening parenthesis the group takes
  every character up to the next closing parenthesis; it must be non-empty and the
  closing parenthesis must exist. The scan resumes after the match.
\<close>

function findall_parenthesised :: "string \<Rightarrow> string list" where
  "findall_parenthesised [] = []"
| "findall_parenthesised (c # cs) =
     (if c = CHR ''(''
         \<and> takeWhile (\<lambda>x. x \<noteq> CHR '')'') cs \<noteq> []
         \<and> dropWhile (\<lambda>x. x \<noteq> CHR '')'') cs \<noteq> []
      then takeWhile (\<lambda>x. x \<noteq> CHR '')'') cs
           # findall_parenthesised (tl (dropWhile (\<lambda>x. x \<noteq> CHR '')'') cs))
      else findall_parenthesised cs)"
  by pat_completeness auto
termination
proof (relation "measure length")
  show "wf (measure length)" by simp
next
  fix c :: char and cs :: string
  assume "c = CHR ''('' \<and> takeWhile (\<lambda>x. x \<noteq> CHR '')'') cs \<noteq> []
         \<and> dropWhile (\<lambda>x. x \<noteq> CHR '')'') cs \<noteq> []"
  have "length (tl (dropWhile (\<lambda>x. x \<noteq> CHR '')'') cs)) \<le> length cs"
    using length_dropWhile_le[of "\<lambda>x. x \<noteq> CHR '')''" cs] by simp
  then show "(tl (dropWhile (\<lambda>x. x \<noteq> CHR '')'') cs), c # cs) \<in> measure length" by simp
next
  fix c :: char and cs :: string
  show "(cs, c # cs) \<in> measure length" by simp
qed

text \<open>\<^verbatim>\<open>s.lower()\<close> on ASCII letters.\<close>

definition ascii_upper :: string where "ascii_upper = ''ABCDEFGHIJKLMNOPQRSTUVWXYZ''"
definition ascii_lower :: string where "ascii_lower = ''abcdefghijklmnopqrstuvwxyz''"

definition py_lower :: "string \<Rightarrow> string" where
  "py_lower s = map (\<lambda>c. case map_of (zip ascii_upper ascii_lower) c of Some l \<Rightarrow> l | None \<Rightarrow> c) s"

text \<open>
  \<^verbatim>\<open>
  def remove_spaces(text):
      if text[0] == ' ':
          text = text[1:]
      if text[:] == ' ':
          text = text[0:len(text)-2]
      return text
  \<close>
  Reading \<^verbatim>\<open>text[0]\<close> of the empty string raises.
\<close>

definition remove_spaces :: "string \<Rightarrow> py_error + string" where
  "remove_spaces text =
     (case text of
        [] \<Rightarrow> Inl IndexError
      | c # cs \<Rightarrow>
          (let text1 = (if c = CHR '' '' then cs else text);
               text2 = (if text1 = '' '' then py_slice_to text1 (int (length text1) - 2) else text1)
           in Inr text2))"

section \<open>Entity normalizer: abbreviation folding\<close>

text \<open>
  The abbreviation dictionary is a Python \<^verbatim>\<open>dict\<close>: an association list in insertion
  order. \<^verbatim>\<open>if k not in d: d[k] = v\<close> is \<open>dict_set_if_absent\<close>.
\<close>

type_synonym abbreviation_dict = "(string \<times> string) list"

definition dict_contains :: "('k \<times> 'v) list \<Rightarrow> 'k \<Rightarrow> bool" where
  "dict_contains d k = (k \<in> fst ` set d)"

definition dict_set_if_absent :: "('k \<times> 'v) list \<Rightarrow> 'k \<Rightarrow> 'v \<Rightarrow> ('k \<times> 'v) list" where
  "dict_set_if_absent d k v = (if \<not> dict_contains d k then d @ [(k, v)] else d)"

text \<open>
  \<^verbatim>\<open>item_arr.append(item[0])\<close> for every word, then \<^verbatim>\<open>''.join(item_arr)\<close>; the
  words come from \<^verbatim>\<open>split()\<close> and are not empty.
\<close>

definition first_letters :: "string list \<Rightarrow> string" where
  "first_letters item_list = map hd item_list"

text \<open>
  The rewriting shared by the four matching branches:
  \<^verbatim>\<open>
  processed_text = text.replace('(', '')
  processed_text = processed_text.replace(')', '')
  processed_text = processed_text.replace(removed, '')
  processed_text = remove_spaces(processed_text)
  \<close>
\<close>

definition strip_parenthetical :: "string \<Rightarrow> string \<Rightarrow> py_error + string" where
  "strip_parenthetical text removed =
     remove_spaces (py_remove (py_remove (py_remove text ''('') '')'') removed)"

text \<open>
  The single-token branch, words before the parenthesis (lines 309 to 326):
  \<^verbatim>\<open>
  sub_string_1_arr = sub_string_1.split()
  abbreviation_len = len(abbreviation)
  if len(sub_string_1_arr)-abbreviation_len >= 0:
      temp_string_arr = sub_string_1_arr[len(sub_string_1_arr)-abbreviation_len:len(sub_string_1_arr)+1]
      ... sub_string_1_abbreviation = ''.join(item_arr)
      sub_string_1_full = remove_spaces(' '.join(temp_string_arr))
      if abbreviation == sub_string_1_abbreviation:
          processed_text = ... text with '(' , ')' and abbreviation replaced by ''
          if abbreviation not in abbreviation_dict:
              abbreviation_dict[abbreviation] = sub_string_1_full
          processed_text = remove_spaces(processed_text)
  \<close>
  The pair \<open>st\<close> is \<open>(processed_text, abbreviation_dict)\<close>.
\<close>

definition fold_single_before ::
  "string \<Rightarrow> string \<Rightarrow> string \<Rightarrow> string \<times> abbreviation_dict \<Rightarrow>
   py_error + string \<times> abbreviation_dict" where
  "fold_single_before text abbreviation sub_string_1 st =
     (let sub_string_1_arr = py_split sub_string_1;
          abbreviation_len = length abbreviation
      in if int (length sub_string_1_arr) - int abbreviation_len \<ge> 0
         then (let temp_string_arr = drop (length sub_string_1_arr - abbreviation_len) sub_string_1_arr;
                   sub_string_1_abbreviation = first_letters temp_string_arr
               in case remove_spaces (py_join '' '' temp_string_arr) of
                    Inl e \<Rightarrow> Inl e
                  | Inr sub_string_1_full \<Rightarrow>
                      if abbreviation = sub_string_1_abbreviation
                      then (case strip_parenthetical text abbreviation of
                              Inl e \<Rightarrow> Inl e
                            | Inr processed_text \<Rightarrow>
                                Inr (processed_text,
                                     dict_set_if_absent (snd st) abbreviation sub_string_1_full))
                      else Inr st)
         else Inr st)"

text \<open>The single-token branch, words after the parenthesis (lines 328 to 344).\<close>

definition fold_single_after ::
  "string \<Rightarrow> string \<Rightarrow> string \<Rightarrow> string \<times> abbreviation_dict \<Rightarrow>
   py_error + string \<times> abbreviation_dict" where
  "fold_single_after text abbreviation sub_string_2 st =
     (let sub_string_2_arr = py_split sub_string_2;
          abbreviation_len = length abbreviation
      in if length sub_string_2_arr \<ge> abbreviation_len
         then (let temp_string_arr = take abbreviation_len sub_string_2_arr;
                   sub_string_2_abbreviation = first_letters temp_string_arr
               in case remove_spaces (py_join '' '' temp_string_arr) of
                    Inl e \<Rightarrow> Inl e
                  | Inr sub_string_2_full \<Rightarrow>
                      if abbreviation = sub_string_2_abbreviation
                      then (case strip_parenthetical text abbreviation of
                              Inl e \<Rightarrow> Inl e
                            | Inr processed_text \<Rightarrow>
                                Inr (processed_text,
                                     dict_set_if_absent (snd st) abbreviation sub_string_2_full))
                      else Inr st)
         else Inr st)"

text \<open>
  The multi-token branch (lines 346 to 381), once for the text before and once for the
  text after the parenthesis: the initials of the tokens are compared with the last
  word of the substring, and on a match the whole substring is registered and removed.
\<close>

definition fold_multi ::
  "string \<Rightarrow> string \<Rightarrow> string \<Rightarrow> string \<times> abbreviation_dict \<Rightarrow>
   py_error + string \<times> abbreviation_dict" where
  "fold_multi text abbreviation sub_string st =
     (let sub_string_arr = py_split sub_string
      in if length sub_string_arr > 0
         then (let sub_string_abbreviation = last sub_string_arr
               in if abbreviation = sub_string_abbreviation
                  then (case strip_parenthetical text sub_string of
                          Inl e \<Rightarrow> Inl e
                        | Inr processed_text \<Rightarrow>
                            Inr (processed_text,
                                 dict_set_if_absent (snd st) abbreviation sub_string))
                  else Inr st)
         else Inr st)"

text \<open>
  \<^verbatim>\<open>
  def get_abbreviation(text, abbreviation_dict):
      tmp = re.findall(r'\(([^)]+)\)', text)
      processed_text = text
      if len(tmp) == 1:
          text_brackets = tmp[0]
          tmp_arr = text_brackets.split()
          pos_1 = text.find('(')
          pos_2 = text.find(')')
          sub_string_1 = text[0:pos_1-1]
          sub_string_2 = text[pos_2+1:]
          if len(tmp_arr) == 1: ...
          elif len(tmp_arr) > 1: ...
      return processed_text, abbreviation_dict
  \<close>
\<close>

definition get_abbreviation ::
  "string \<Rightarrow> abbreviation_dict \<Rightarrow> py_error + string \<times> abbreviation_dict" where
  "get_abbreviation text abbreviation_dict =
     (let tmp = findall_parenthesised text
      in if length tmp = 1
         then (let text_brackets = hd tmp;
                   tmp_arr = py_split text_brackets;
                   pos_1 = py_find text ''('';
                   pos_2 = py_find text '')'';
                   sub_string_1 = py_slice_to text (pos_1 - 1);
                   sub_string_2 = py_slice_from text (pos_2 + 1)
               in if length tmp_arr = 1
                  then (let abbreviation = hd tmp_arr
                        in case fold_single_before text abbreviation sub_string_1
                                  (text, abbreviation_dict) of
                             Inl e \<Rightarrow> Inl e
                           | Inr st \<Rightarrow> fold_single_after text abbreviation sub_string_2 st)
                  else if length tmp_arr > 1
                  then (let abbreviation = first_letters tmp_arr
                        in case fold_multi text abbreviation sub_string_1
                                  (text, abbreviation_dict) of
                             Inl e \<Rightarrow> Inl e
                           | Inr st \<Rightarrow> fold_multi text abbreviation sub_string_2 st)
                  else Inr (text, abbreviation_dict))
         else Inr (text, abbreviation_dict))"




section \<open>Structured fields: JSON values and the tolerant parser\<close>

text \<open>
  A parsed JSON document is a Python value: \<open>JNull\<close> is \<^verbatim>\<open>None\<close>, \<open>JObj\<close> a
  \<^verbatim>\<open>dict\<close> with string keys, \<open>JArr\<close> a \<^verbatim>\<open>list\<close>. The parser of the standard library
  is a parameter: \<^verbatim>\<open>json.loads\<close> returns a value or raises \<^verbatim>\<open>JSONDecodeError\<close>,
  which is \<open>None\<close> here.
\<close>

datatype json =
  JNull | JBool bool | JNum int | JStr string | JArr "json list" | JObj "(string \<times> json) list"

text \<open>
  Subscription \<^verbatim>\<open>v[key]\<close> with a string key, \<^verbatim>\<open>len(v)\<close>, iteration
  \<^verbatim>\<open>for item in v\<close> and \<^verbatim>\<open>v[0]\<close> on a Python value of any shape.
\<close>

definition py_getitem_key :: "json \<Rightarrow> string \<Rightarrow> py_error + json" where
  "py_getitem_key v key =
     (case v of
        JObj kvs \<Rightarrow> (case map_of kvs key of None \<Rightarrow> Inl KeyError | Some x \<Rightarrow> Inr x)
      | _ \<Rightarrow> Inl TypeError)"

definition py_len :: "json \<Rightarrow> py_error + nat" where
  "py_len v =
     (case v of
        JArr xs \<Rightarrow> Inr (length xs)
      | JStr s \<Rightarrow> Inr (length s)
      | JObj kvs \<Rightarrow> Inr (length kvs)
      | _ \<Rightarrow> Inl TypeError)"

definition py_iter :: "json \<Rightarrow> py_error + json list" where
  "py_iter v =
     (case v of
        JArr xs \<Rightarrow> Inr xs
      | JStr s \<Rightarrow> Inr (map (\<lambda>c. JStr [c]) s)
      | JObj kvs \<Rightarrow> Inr (map (\<lambda>kv. JStr (fst kv)) kvs)
      | _ \<Rightarrow> Inl TypeError)"

definition py_getitem_first :: "json \<Rightarrow> py_error + json" where
  "py_getitem_first v =
     (case v of
        JArr xs \<Rightarrow> (case xs of [] \<Rightarrow> Inl IndexError | x # _ \<Rightarrow> Inr x)
      | JStr s \<Rightarrow> (case s of [] \<Rightarrow> Inl IndexError | c # _ \<Rightarrow> Inr (JStr [c]))
      | JObj kvs \<Rightarrow> Inl KeyError
      | _ \<Rightarrow> Inl TypeError)"

text \<open>\<^verbatim>\<open>s.strip()\<close> and \<^verbatim>\<open>s.strip("'")\<close>.\<close>

definition py_strip :: "string \<Rightarrow> string" where
  "py_strip s = rev (dropWhile py_isspace (rev (dropWhile py_isspace s)))"

definition py_strip_char :: "string \<Rightarrow> char \<Rightarrow> string" where
  "py_strip_char s q = rev (dropWhile (\<lambda>c. c = q) (rev (dropWhile (\<lambda>c. c = q) s)))"

definition unquote :: "string \<Rightarrow> string" where
  "unquote s =
     (if py_startswith s [CHR 0x27] \<and> py_endswith s [CHR 0x27] then py_strip_char s (CHR 0x27)
      else s)"

text \<open>
  \<^verbatim>\<open>
  def load_json_data(json_string):
      parsed_data = None
      if json_string.startswith("'") and json_string.endswith("'"):
          json_string = json_string.strip("'")
      json_string = json_string.strip()
      try:
          parsed_data = json.loads(json_string)
          if isinstance(parsed_data, dict):
              return parsed_data
          else:
              if parsed_data.startswith("'") and parsed_data.endswith("'"):
                  parsed_data = parsed_data.strip("'")
              parsed_data = parsed_data.strip()
              parsed_data = json.loads(parsed_data)
              return parsed_data
      except json.JSONDecodeError as e:
          print(f"Error parsing JSON: {e}")
          return parsed_data
  \<close>
  Only \<^verbatim>\<open>JSONDecodeError\<close> is caught. A first parse that fails returns \<^verbatim>\<open>None\<close>; a
  parsed value that is neither a dictionary nor a string has no \<^verbatim>\<open>startswith\<close>; a second
  parse that fails returns the stripped string. The printed message is not modelled.
\<close>

definition load_json_data :: "(string \<Rightarrow> json option) \<Rightarrow> string \<Rightarrow> py_error + json" where
  "load_json_data loads json_string =
     (case loads (py_strip (unquote json_string)) of
        None \<Rightarrow> Inr JNull
      | Some parsed_data \<Rightarrow>
          (case parsed_data of
             JObj kvs \<Rightarrow> Inr parsed_data
           | JStr s \<Rightarrow>
               (case loads (py_strip (unquote s)) of
                  None \<Rightarrow> Inr (JStr (py_strip (unquote s)))
                | Some v \<Rightarrow> Inr v)
           | _ \<Rightarrow> Inl AttributeError))"

section \<open>Entity normalizer: singularization and party classification\<close>

text \<open>
  \<^verbatim>\<open>
  def is_abbreviation(word):
      return word.isupper() or bool(re.search(r'\d|[&+]', word)) or word.endswith("'s")
  \<close>
\<close>

definition py_isupper :: "string \<Rightarrow> bool" where
  "py_isupper s = (list_ex (\<lambda>c. c \<in> set ascii_upper) s \<and> list_all (\<lambda>c. c \<notin> set ascii_lower) s)"

definition is_abbreviation :: "string \<Rightarrow> bool" where
  "is_abbreviation word =
     (py_isupper word \<or> list_ex (\<lambda>c. c \<in> set ''0123456789&+'') word
      \<or> py_endswith word [CHR 0x27, CHR ''s''])"

definition exclusions :: "string list" where
  "exclusions = [''Our'', ''our'', ''we'', ''We'', ''us'', ''Us'', ''They'', ''they'', ''Them'',
     ''them'', ''data'', ''Data'', ''address'', ''Address'', ''as'', ''As'', ''are'', ''Are'',
     ''is'', ''Is'', ''whether'', ''Whether'', ''another'', ''Another'', ''Have'', ''have'',
     ''Has'', ''has'', ''The'', ''the'']"

text \<open>
  \<^verbatim>\<open>
  def singularize_phrase(phrase, exclusions):
      if phrase not in exclusions:
          p = inflect.engine()
          words = phrase.split()
          singular_words = [
              word if is_abbreviation(word) or word in exclusions else (p.singular_noun(word) or word)
              for word in words
          ]
          return ' '.join(singular_words)
      else:
          return phrase
  \<close>
  The inflection engine is a parameter: \<open>singular_noun\<close> returns the singular form, or
  \<open>None\<close> where the library returns \<^verbatim>\<open>False\<close>. The phrase is a value read from a
  structured field; a value that is not a string has no \<^verbatim>\<open>split\<close>.
\<close>

definition singularize_phrase ::
  "(string \<Rightarrow> string option) \<Rightarrow> json \<Rightarrow> string list \<Rightarrow> py_error + string" where
  "singularize_phrase singular_noun phrase excl =
     (case phrase of
        JStr s \<Rightarrow>
          (if s \<notin> set excl
           then Inr (py_join '' ''
                  (map (\<lambda>word. if is_abbreviation word \<or> word \<in> set excl then word
                               else (case singular_noun word of
                                       None \<Rightarrow> word
                                     | Some w \<Rightarrow> if w = [] then word else w))
                       (py_split s)))
           else Inr s)
      | _ \<Rightarrow> Inl AttributeError)"

text \<open>
  The linguistic parser is a parameter: \<open>nlp\<close> maps a phrase to its tokens, each with
  its surface text, dependency label and part of speech.
  \<^verbatim>\<open>
  def get_main(phrase):
      doc = nlp(phrase)
      for token in doc:
          if token.dep_ == "ROOT":
              return token.text
      nouns = [token.text for token in doc if token.pos_ == "NOUN"]
      return nouns[-1] if nouns else phrase

  def get_poss(phrase):
      doc = nlp(phrase)
      poss_modifiers = [token.text for token in doc if token.dep_ == "poss"]
      return poss_modifiers[-1] if poss_modifiers else phrase
  \<close>
\<close>

record token =
  tok_text :: string
  tok_dep :: string
  tok_pos :: string

definition get_main :: "(string \<Rightarrow> token list) \<Rightarrow> string \<Rightarrow> string" where
  "get_main nlp phrase =
     (case filter (\<lambda>t. tok_dep t = ''ROOT'') (nlp phrase) of
        t # _ \<Rightarrow> tok_text t
      | [] \<Rightarrow>
          (let nouns = map tok_text (filter (\<lambda>t. tok_pos t = ''NOUN'') (nlp phrase))
           in if nouns \<noteq> [] then last nouns else phrase))"

definition get_poss :: "(string \<Rightarrow> token list) \<Rightarrow> string \<Rightarrow> string" where
  "get_poss nlp phrase =
     (let poss_modifiers = map tok_text (filter (\<lambda>t. tok_dep t = ''poss'') (nlp phrase))
      in if poss_modifiers \<noteq> [] then last poss_modifiers else phrase)"

definition first_party_entity_arr :: "string list" where
  "first_party_entity_arr = [''we'', ''us'', ''this website'', ''this company'',
     ''this organisation'', ''this organization'', ''this app'', ''from you'', ''our website'',
     ''our'', ''our company'', ''our organisation'', ''our organization'', ''our service'',
     ''our app'', ''the website'', ''the company'', ''the app'', ''the organization'', ''app'',
     ''device'', ''your app'', ''your device'', ''the device'', ''your car'', ''car'']"

definition first_party_entity_main_root_arr :: "string list" where
  "first_party_entity_main_root_arr = [''we'', ''We'', ''us'', ''Website'', ''website'',
     ''Company'', ''company'', ''Organisation'', ''organisation'', ''Organization'',
     ''organization'', ''App'', ''app'', ''Service'', ''service'', ''Device'', ''device'',
     ''Car'', ''car'', ''Site'', ''site'']"

definition first_party_entity_poss_arr :: "string list" where
  "first_party_entity_poss_arr = [''this'', ''our'', ''This'', ''Our'']"

text \<open>
  \<^verbatim>\<open>
  def rectify_collection_party(entity):
      flag = False
      for item in first_party_entity_arr:
          if entity == item:
              flag = True
              break
          else:
              for item_root in first_party_entity_main_root_arr:
                  main_entity = get_main(entity)
                  for item_poss in first_party_entity_poss_arr:
                      pos_entity = get_poss(entity)
                      if main_entity == item_root and pos_entity == item_poss:
                          flag = True
                          break
      return flag
  \<close>
  The two inner loops set the flag when the head is one of the root nouns and the
  possessive modifier one of the possessives; the flag is never reset.
\<close>

fun rectify_loop :: "(string \<Rightarrow> token list) \<Rightarrow> string \<Rightarrow> bool \<Rightarrow> string list \<Rightarrow> bool" where
  "rectify_loop nlp entity flag [] = flag"
| "rectify_loop nlp entity flag (item # items) =
     (if entity = item then True
      else rectify_loop nlp entity
             (flag \<or> (list_ex (\<lambda>item_root.
                          list_ex (\<lambda>item_poss. get_main nlp entity = item_root
                                                \<and> get_poss nlp entity = item_poss)
                                  first_party_entity_poss_arr)
                        first_party_entity_main_root_arr))
             items)"

definition rectify_collection_party :: "(string \<Rightarrow> token list) \<Rightarrow> string \<Rightarrow> bool" where
  "rectify_collection_party nlp entity = rectify_loop nlp entity False first_party_entity_arr"

text \<open>\<^verbatim>\<open>if entity not in arr: arr.append(entity)\<close>.\<close>

definition append_if_absent :: "'a list \<Rightarrow> 'a \<Rightarrow> 'a list" where
  "append_if_absent arr x = (if x \<notin> set arr then arr @ [x] else arr)"

text \<open>
  \<^verbatim>\<open>
  def get_entity_property(entity, party_category, main_party, first_party_arr, third_party_arr, user_party_arr):
      entity = entity.lower()
      if entity != "":
          if entity.find(main_party) >= 0:
              if entity not in first_party_arr:
                  first_party_arr.append(entity)
              entity_color = "#ccff99"
          else:
              if rectify_collection_party(entity):
                  if entity not in first_party_arr:
                      first_party_arr.append(entity)
                  entity_color = "#ccff99"
              else:
                  main_part = get_main(entity)
                  if main_part.startswith('you') or main_part.startswith('user') or main_part.startswith('customer'):
                      entity_color = "#f7ff99"
                      if entity not in user_party_arr:
                          user_party_arr.append(entity)
                  else:
                      if party_category == "Unspecified" and entity == 'unspecified party':
                          entity_color = "#00008B"
                      else:
                          if entity not in third_party_arr:
                              third_party_arr.append(entity)
                          entity_color = "#ff99ff"
      else:
          entity_color = "#00008B"
      return entity_color, first_party_arr, third_party_arr, user_party_arr
  \<close>
\<close>

text \<open>
  The three registries \<^verbatim>\<open>first_party_arr\<close>, \<^verbatim>\<open>third_party_arr\<close> and
  \<^verbatim>\<open>user_party_arr\<close>, passed in and returned together.
\<close>

record party_registry =
  first_party :: "string list"
  third_party :: "string list"
  user_party :: "string list"

definition get_entity_property ::
  "(string \<Rightarrow> token list) \<Rightarrow> string \<Rightarrow> json \<Rightarrow> string \<Rightarrow> party_registry \<Rightarrow>
   string \<times> party_registry" where
  "get_entity_property nlp entity0 party_category main_party reg =
     (let entity = py_lower entity0
      in if entity \<noteq> []
         then (if py_find entity main_party \<ge> 0
               then (''#ccff99'',
                     reg\<lparr>first_party := append_if_absent (first_party reg) entity\<rparr>)
               else if rectify_collection_party nlp entity
               then (''#ccff99'',
                     reg\<lparr>first_party := append_if_absent (first_party reg) entity\<rparr>)
               else (let main_part = get_main nlp entity
                     in if py_startswith main_part ''you'' \<or> py_startswith main_part ''user''
                           \<or> py_startswith main_part ''customer''
                        then (''#f7ff99'',
                              reg\<lparr>user_party := append_if_absent (user_party reg) entity\<rparr>)
                        else if party_category = JStr ''Unspecified''
                                \<and> entity = ''unspecified party''
                        then (''#00008B'', reg)
                        else (''#ff99ff'',
                              reg\<lparr>third_party :=
                                    append_if_absent (third_party reg) entity\<rparr>)))
         else (''#00008B'', reg))"

section \<open>Graph builder\<close>

subsection \<open>The directed multigraph\<close>

text \<open>
  The graph is a \<^verbatim>\<open>networkx.MultiDiGraph\<close>: nodes with attributes in insertion order
  and a list of edges, each with its end points, its key among the parallel edges of
  its ordered pair, and its attributes. \<^verbatim>\<open>add_node\<close> on a node that exists updates
  its attributes; \<^verbatim>\<open>add_edge\<close> creates missing end points without attributes and
  gives the new edge the number of parallel edges already there as key.
  \<^verbatim>\<open>has_edge(u, v)\<close> holds when at least one edge leads from \<open>u\<close> to \<open>v\<close>.
\<close>

type_synonym node_id = string

record node_attrs =
  node_color :: "string option"
  node_size :: "nat option"
  node_title :: "string option"
  node_shape :: "string option"

record edge =
  edge_src :: node_id
  edge_dst :: node_id
  edge_key :: nat
  edge_group :: string
  edge_color :: string
  edge_description :: string
  edge_title :: string
  edge_arrows :: string

record graph =
  nodes :: "(node_id \<times> node_attrs) list"
  edges :: "edge list"

definition empty_graph :: graph where
  "empty_graph = \<lparr>nodes = [], edges = []\<rparr>"

definition no_attrs :: node_attrs where
  "no_attrs = \<lparr>node_color = None, node_size = None, node_title = None, node_shape = None\<rparr>"

definition has_node :: "graph \<Rightarrow> node_id \<Rightarrow> bool" where
  "has_node g n = (n \<in> set (map fst (nodes g)))"

definition add_node :: "graph \<Rightarrow> node_id \<Rightarrow> node_attrs \<Rightarrow> graph" where
  "add_node g n attrs =
     (if has_node g n
      then g\<lparr>nodes := map (\<lambda>(m, a). if m = n
                 then (m, \<lparr>node_color = (case node_color attrs of None \<Rightarrow> node_color a | Some c \<Rightarrow> Some c),
                           node_size = (case node_size attrs of None \<Rightarrow> node_size a | Some c \<Rightarrow> Some c),
                           node_title = (case node_title attrs of None \<Rightarrow> node_title a | Some c \<Rightarrow> Some c),
                           node_shape = (case node_shape attrs of None \<Rightarrow> node_shape a | Some c \<Rightarrow> Some c)\<rparr>)
                 else (m, a)) (nodes g)\<rparr>
      else g\<lparr>nodes := nodes g @ [(n, attrs)]\<rparr>)"

definition has_edge :: "graph \<Rightarrow> node_id \<Rightarrow> node_id \<Rightarrow> bool" where
  "has_edge g u v = list_ex (\<lambda>e. edge_src e = u \<and> edge_dst e = v) (edges g)"

definition add_edge ::
  "graph \<Rightarrow> node_id \<Rightarrow> node_id \<Rightarrow> string \<Rightarrow> string \<Rightarrow> string \<Rightarrow> string \<Rightarrow> string \<Rightarrow> graph" where
  "add_edge g u v grp col descr ttl arrows =
     (let g1 = (if has_node g u then g else g\<lparr>nodes := nodes g @ [(u, no_attrs)]\<rparr>);
          g2 = (if has_node g1 v then g1 else g1\<lparr>nodes := nodes g1 @ [(v, no_attrs)]\<rparr>)
      in g2\<lparr>edges := edges g2 @
               [\<lparr>edge_src = u, edge_dst = v,
                 edge_key = length (filter (\<lambda>e. edge_src e = u \<and> edge_dst e = v) (edges g2)),
                 edge_group = grp, edge_color = col, edge_description = descr,
                 edge_title = ttl, edge_arrows = arrows\<rparr>]\<rparr>)"

subsection \<open>Inputs and state of one run\<close>

text \<open>
  The collaborators of a run: the JSON parser, the inflection engine, the linguistic
  parser, and the purpose colour map built from the taxonomy file before the first
  record is read.
\<close>

record env =
  json_loads :: "string \<Rightarrow> json option"
  singular_noun :: "string \<Rightarrow> string option"
  nlp :: "string \<Rightarrow> token list"
  purpose_color_map :: "(string \<times> string) list"

text \<open>
  One row appended to \<^verbatim>\<open>data_output_arr\<close>: raw text, data type, category, sender,
  receiver, collection party, purpose, collection method.
\<close>

record output_row =
  out_raw_text :: string
  out_data_type :: string
  out_data_category :: json
  out_data_sender :: string
  out_data_receiver :: string
  out_collection_party :: json
  out_collection_purpose :: string
  out_collection_method :: json

text \<open>The accumulators of \<^verbatim>\<open>get_data_flow_graph_revised\<close>; all but the
  abbreviation dictionary are returned.\<close>

record builder_state =
  G :: graph
  abbreviation_dict :: abbreviation_dict
  registry :: party_registry
  data_flow_completed_arr :: "string list"
  data_flow_no_sender_arr :: "string list"
  data_flow_no_receiver_arr :: "string list"
  data_category_dic :: "(string \<times> json) list"
  data_output_arr :: "output_row list"

definition initial_state :: builder_state where
  "initial_state =
     \<lparr>G = empty_graph, abbreviation_dict = [],
      registry = \<lparr>first_party = [], third_party = [], user_party = []\<rparr>,
      data_flow_completed_arr = [], data_flow_no_sender_arr = [],
      data_flow_no_receiver_arr = [], data_category_dic = [], data_output_arr = []\<rparr>"

text \<open>
  \<^verbatim>\<open>
  def read_text_segment(csv_file_path):
      text_dictrionary = {}
      ...
          for line_num, row in enumerate(csv_reader, 2):
              idx = row[0]
              text = row[1]
              text_dictrionary[idx] = text
      return text_dictrionary
  \<close>
  The files are given by their rows after the header, each a list of cells.
\<close>

fun read_text_segment ::
  "(string \<Rightarrow> string option) \<Rightarrow> string list list \<Rightarrow> py_error + (string \<Rightarrow> string option)" where
  "read_text_segment text_dictrionary [] = Inr text_dictrionary"
| "read_text_segment text_dictrionary (row # rows) =
     (case py_getitem row 0 of
        Inl e \<Rightarrow> Inl e
      | Inr idx \<Rightarrow>
          (case py_getitem row 1 of
             Inl e \<Rightarrow> Inl e
           | Inr segment \<Rightarrow> read_text_segment (text_dictrionary(idx \<mapsto> segment)) rows))"

subsection \<open>Reading one record\<close>

text \<open>The cells and parsed fields of one row (lines 424 to 433).\<close>

record flow_record =
  raw_idx :: string
  raw_text :: string
  raw_data_type :: string
  data_category_json :: json
  data_flow_json :: json
  data_collection_party_json :: json
  data_collection_purpose_json :: json
  data_collection_method_json :: json

definition load_cell :: "env \<Rightarrow> string list \<Rightarrow> nat \<Rightarrow> py_error + json" where
  "load_cell ev row i =
     (case py_getitem row i of Inl e \<Rightarrow> Inl e | Inr cell \<Rightarrow> load_json_data (json_loads ev) cell)"

definition read_record ::
  "env \<Rightarrow> (string \<Rightarrow> string option) \<Rightarrow> string list \<Rightarrow> py_error + flow_record" where
  "read_record ev text_dictrionary row =
     (case py_getitem row 0 of Inl e \<Rightarrow> Inl e | Inr idx \<Rightarrow>
      (case text_dictrionary idx of None \<Rightarrow> Inl KeyError | Some segment \<Rightarrow>
      (case py_getitem row 1 of Inl e \<Rightarrow> Inl e | Inr data_type \<Rightarrow>
      (case load_cell ev row 2 of Inl e \<Rightarrow> Inl e | Inr category_json \<Rightarrow>
      (case load_cell ev row 3 of Inl e \<Rightarrow> Inl e | Inr flow_json \<Rightarrow>
      (case load_cell ev row 4 of Inl e \<Rightarrow> Inl e | Inr party_json \<Rightarrow>
      (case load_cell ev row 5 of Inl e \<Rightarrow> Inl e | Inr purpose_json \<Rightarrow>
      (case load_cell ev row 6 of Inl e \<Rightarrow> Inl e | Inr method_json \<Rightarrow>
         Inr \<lparr>raw_idx = idx, raw_text = segment, raw_data_type = data_type,
              data_category_json = category_json, data_flow_json = flow_json,
              data_collection_party_json = party_json,
              data_collection_purpose_json = purpose_json,
              data_collection_method_json = method_json\<rparr>))))))))"

text \<open>
  \<^verbatim>\<open>for item in items: current = item[key]\<close>: the last item wins.
\<close>

fun last_item_field :: "string \<Rightarrow> json \<Rightarrow> json list \<Rightarrow> py_error + json" where
  "last_item_field key current [] = Inr current"
| "last_item_field key current (item # items) =
     (case py_getitem_key item key of
        Inl e \<Rightarrow> Inl e
      | Inr v \<Rightarrow> last_item_field key v items)"

text \<open>
  \<^verbatim>\<open>
  data_category = ""
  if data_category_json is not None:
      if len(data_category_json['Output']) > 0:
          for item in data_category_json['Output']:
              data_category = item['DataCategory']
      else:
          data_category = 'Unspecified'
  \<close>
\<close>

definition extract_category :: "json \<Rightarrow> py_error + json" where
  "extract_category category_json =
     (if category_json \<noteq> JNull
      then (case py_getitem_key category_json ''Output'' of Inl e \<Rightarrow> Inl e | Inr out \<Rightarrow>
            (case py_len out of Inl e \<Rightarrow> Inl e | Inr n \<Rightarrow>
               if n > 0
               then (case py_iter out of
                       Inl e \<Rightarrow> Inl e
                     | Inr items \<Rightarrow> last_item_field ''DataCategory'' (JStr []) items)
               else Inr (JStr ''Unspecified'')))
      else Inr (JStr []))"

text \<open>
  \<^verbatim>\<open>
  data_sender = ''
  data_receiver = ''
  if len(data_flow_json['data']) > 0:
      for item in data_flow_json['data']:
          data_sender = item['data_sender']
          data_receiver = item['data_receiver']
  \<close>
\<close>

fun last_sender_receiver :: "json \<times> json \<Rightarrow> json list \<Rightarrow> py_error + json \<times> json" where
  "last_sender_receiver current [] = Inr current"
| "last_sender_receiver current (item # items) =
     (case py_getitem_key item ''data_sender'' of Inl e \<Rightarrow> Inl e | Inr data_sender \<Rightarrow>
      (case py_getitem_key item ''data_receiver'' of Inl e \<Rightarrow> Inl e | Inr data_receiver \<Rightarrow>
         last_sender_receiver (data_sender, data_receiver) items))"

definition extract_flow :: "json \<Rightarrow> py_error + json \<times> json" where
  "extract_flow flow_json =
     (case py_getitem_key flow_json ''data'' of Inl e \<Rightarrow> Inl e | Inr items_json \<Rightarrow>
      (case py_len items_json of Inl e \<Rightarrow> Inl e | Inr n \<Rightarrow>
         if n > 0
         then (case py_iter items_json of
                 Inl e \<Rightarrow> Inl e
               | Inr items \<Rightarrow> last_sender_receiver (JStr [], JStr []) items)
         else Inr (JStr [], JStr [])))"

subsection \<open>Normalization of the triple\<close>

text \<open>
  Lines 453 to 463 for one of the three strings: singularize, lower-case, remove every
  occurrence of \<^verbatim>\<open>the\<close>.
\<close>

definition canonical :: "env \<Rightarrow> json \<Rightarrow> py_error + string" where
  "canonical ev phrase =
     (case singularize_phrase (singular_noun ev) phrase exclusions of
        Inl e \<Rightarrow> Inl e
      | Inr s \<Rightarrow> Inr (py_remove (py_lower s) ''the''))"

text \<open>\<^verbatim>\<open>if len(x) > 0: x = remove_spaces(x)\<close> (lines 469 to 474).\<close>

definition trim_leading :: "string \<Rightarrow> py_error + string" where
  "trim_leading s = (if length s > 0 then remove_spaces s else Inr s)"

text \<open>
  Lines 453 to 474. The three singularizations come first, then the abbreviation folding
  of data type, sender and receiver in this order, sharing the dictionary. The result
  is \<open>((data_type, data_sender, data_receiver), abbreviation_dict)\<close>.
\<close>

definition normalize_triple ::
  "env \<Rightarrow> abbreviation_dict \<Rightarrow> string \<Rightarrow> json \<Rightarrow> json \<Rightarrow>
   py_error + (string \<times> string \<times> string) \<times> abbreviation_dict" where
  "normalize_triple ev d0 data_type0 data_sender0 data_receiver0 =
     (case canonical ev (JStr data_type0) of Inl e \<Rightarrow> Inl e | Inr data_type1 \<Rightarrow>
      (case canonical ev data_sender0 of Inl e \<Rightarrow> Inl e | Inr data_sender1 \<Rightarrow>
      (case canonical ev data_receiver0 of Inl e \<Rightarrow> Inl e | Inr data_receiver1 \<Rightarrow>
      (case get_abbreviation data_type1 d0 of Inl e \<Rightarrow> Inl e | Inr (data_type2, d1) \<Rightarrow>
      (case get_abbreviation data_sender1 d1 of Inl e \<Rightarrow> Inl e | Inr (data_sender2, d2) \<Rightarrow>
      (case get_abbreviation data_receiver1 d2 of Inl e \<Rightarrow> Inl e | Inr (data_receiver2, d3) \<Rightarrow>
      (case trim_leading data_type2 of Inl e \<Rightarrow> Inl e | Inr data_type \<Rightarrow>
      (case trim_leading data_sender2 of Inl e \<Rightarrow> Inl e | Inr data_sender \<Rightarrow>
      (case trim_leading data_receiver2 of Inl e \<Rightarrow> Inl e | Inr data_receiver \<Rightarrow>
         Inr ((data_type, data_sender, data_receiver), d3))))))))))"

subsection \<open>An accepted record\<close>

text \<open>
  \<^verbatim>\<open>
  if data_sender != '' and data_receiver != '':
      tmp = data_sender + '#' + data_type + '#' + data_receiver
      if tmp not in data_flow_completed_arr:
          data_flow_completed_arr.append(data_sender + '#' + data_type + '#' + data_receiver)
  if data_sender == '' and data_receiver != '':
      ... data_flow_no_sender_arr ...
  if data_sender != '' and data_receiver == '':
      ... data_flow_no_receiver_arr ...
  \<close>
\<close>

definition flow_key :: "string \<Rightarrow> string \<Rightarrow> string \<Rightarrow> string" where
  "flow_key data_sender data_type data_receiver =
     data_sender @ ''#'' @ data_type @ ''#'' @ data_receiver"

definition record_flow :: "string \<Rightarrow> string \<Rightarrow> string \<Rightarrow> builder_state \<Rightarrow> builder_state" where
  "record_flow data_sender data_type data_receiver st =
     (let tmp = flow_key data_sender data_type data_receiver;
          st1 = (if data_sender \<noteq> [] \<and> data_receiver \<noteq> []
                 then st\<lparr>data_flow_completed_arr :=
                           append_if_absent (data_flow_completed_arr st) tmp\<rparr>
                 else st);
          st2 = (if data_sender = [] \<and> data_receiver \<noteq> []
                 then st1\<lparr>data_flow_no_sender_arr :=
                            append_if_absent (data_flow_no_sender_arr st1) tmp\<rparr>
                 else st1);
          st3 = (if data_sender \<noteq> [] \<and> data_receiver = []
                 then st2\<lparr>data_flow_no_receiver_arr :=
                            append_if_absent (data_flow_no_receiver_arr st2) tmp\<rparr>
                 else st2)
      in st3)"

text \<open>
  \<^verbatim>\<open>
  data_collection_party = ""
  if len(data_collection_party_json['Output']) > 0:
      data_collection_party = data_collection_party_json['Output'][0]['DataCategory']
      if data_receiver.find(main_party) >= 0:
          data_collection_party = 'First Party'
      else:
          if rectify_collection_party(data_receiver):
              data_collection_party = 'First Party'
  \<close>
\<close>

definition collection_party :: "env \<Rightarrow> string \<Rightarrow> json \<Rightarrow> string \<Rightarrow> py_error + json" where
  "collection_party ev main_party party_json data_receiver =
     (case py_getitem_key party_json ''Output'' of Inl e \<Rightarrow> Inl e | Inr out \<Rightarrow>
      (case py_len out of Inl e \<Rightarrow> Inl e | Inr n \<Rightarrow>
         if n > 0
         then (case py_getitem_first out of Inl e \<Rightarrow> Inl e | Inr item \<Rightarrow>
               (case py_getitem_key item ''DataCategory'' of Inl e \<Rightarrow> Inl e | Inr category \<Rightarrow>
                  if py_find data_receiver main_party \<ge> 0 then Inr (JStr ''First Party'')
                  else if rectify_collection_party (nlp ev) data_receiver
                  then Inr (JStr ''First Party'')
                  else Inr category))
         else Inr (JStr [])))"

text \<open>
  \<^verbatim>\<open>
  data_collection_purpose = ""
  if len(data_collection_purpose_json['Output']) > 0:
      for item in data_collection_purpose_json['Output']:
          data_collection_purpose += item['DataCategory'] + '; '
  \<close>
  Adding a string to a value that is not a string raises \<^verbatim>\<open>TypeError\<close>.
\<close>

fun concat_purposes :: "string \<Rightarrow> json list \<Rightarrow> py_error + string" where
  "concat_purposes acc [] = Inr acc"
| "concat_purposes acc (item # items) =
     (case py_getitem_key item ''DataCategory'' of
        Inl e \<Rightarrow> Inl e
      | Inr v \<Rightarrow> (case v of JStr s \<Rightarrow> concat_purposes (acc @ s @ ''; '') items
                  | _ \<Rightarrow> Inl TypeError))"

definition collection_purpose :: "json \<Rightarrow> py_error + string" where
  "collection_purpose purpose_json =
     (case py_getitem_key purpose_json ''Output'' of Inl e \<Rightarrow> Inl e | Inr out \<Rightarrow>
      (case py_len out of Inl e \<Rightarrow> Inl e | Inr n \<Rightarrow>
         if n > 0
         then (case py_iter out of Inl e \<Rightarrow> Inl e | Inr items \<Rightarrow> concat_purposes [] items)
         else Inr []))"

text \<open>
  \<^verbatim>\<open>
  data_collection_method = ""
  if len(data_collection_method_json['Output']) > 0:
      for item in data_collection_method_json['Output']:
          reference_text = item['InputText']
          if data_type in reference_text:
              data_collection_method = item['DataCategory']
      if data_collection_method == "":
          data_collection_method = data_collection_method_json['Output'][0]['DataCategory']
  \<close>
  \<^verbatim>\<open>data_type in reference_text\<close> is the substring test on a string, membership on a
  list, key membership on a dictionary and a \<^verbatim>\<open>TypeError\<close> otherwise.
\<close>

definition py_str_in :: "string \<Rightarrow> json \<Rightarrow> py_error + bool" where
  "py_str_in s v =
     (case v of
        JStr t \<Rightarrow> Inr (py_find t s \<ge> 0)
      | JArr xs \<Rightarrow> Inr (JStr s \<in> set xs)
      | JObj kvs \<Rightarrow> Inr (s \<in> set (map fst kvs))
      | _ \<Rightarrow> Inl TypeError)"

fun scan_methods :: "string \<Rightarrow> json \<Rightarrow> json list \<Rightarrow> py_error + json" where
  "scan_methods data_type current [] = Inr current"
| "scan_methods data_type current (item # items) =
     (case py_getitem_key item ''InputText'' of Inl e \<Rightarrow> Inl e | Inr reference_text \<Rightarrow>
      (case py_str_in data_type reference_text of Inl e \<Rightarrow> Inl e | Inr found \<Rightarrow>
         if found
         then (case py_getitem_key item ''DataCategory'' of
                 Inl e \<Rightarrow> Inl e
               | Inr v \<Rightarrow> scan_methods data_type v items)
         else scan_methods data_type current items))"

definition collection_method :: "json \<Rightarrow> string \<Rightarrow> py_error + json" where
  "collection_method method_json data_type =
     (case py_getitem_key method_json ''Output'' of Inl e \<Rightarrow> Inl e | Inr out \<Rightarrow>
      (case py_len out of Inl e \<Rightarrow> Inl e | Inr n \<Rightarrow>
         if n > 0
         then (case py_iter out of Inl e \<Rightarrow> Inl e | Inr items \<Rightarrow>
               (case scan_methods data_type (JStr []) items of Inl e \<Rightarrow> Inl e | Inr found \<Rightarrow>
                  if found = JStr []
                  then (case py_getitem_first out of
                          Inl e \<Rightarrow> Inl e
                        | Inr item \<Rightarrow> py_getitem_key item ''DataCategory'')
                  else Inr found))
         else Inr (JStr [])))"

text \<open>
  Lines 527 to 541: the three nodes and the two edges, each created only when absent.
  \<^verbatim>\<open>
  if not G.has_node(data_sender):
      if data_sender == "":
          G.add_node(data_sender, color=data_sender_entity_color, size=40, title="unknown")
      else:
          G.add_node(data_sender, color=data_sender_entity_color, size=40, title=data_sender)
  if not G.has_node(data_type) and data_type != "":
      G.add_node(data_type, color=data_color, size=20, title=data_type, shape='box')
  if not G.has_node(data_receiver):
      G.add_node(data_receiver, color=data_receiver_entity_color, size=40, title=data_receiver)
  if not G.has_edge(data_sender, data_type):
      G.add_edge(data_sender, data_type, group=raw_idx, color=purpose_color, description=raw_text,
                 title=data_collection_purpose, arrows="to")
  if not G.has_edge(data_type, data_receiver):
      G.add_edge(data_type, data_receiver, group=raw_idx, color=purpose_color, description=raw_text,
                 title=data_collection_purpose, arrows="to")
  \<close>
\<close>

definition add_flow_to_graph ::
  "graph \<Rightarrow> node_id \<Rightarrow> node_id \<Rightarrow> node_id \<Rightarrow> string \<Rightarrow> string \<Rightarrow> string \<Rightarrow> string \<Rightarrow>
   string \<Rightarrow> string \<Rightarrow> graph" where
  "add_flow_to_graph g data_sender data_type data_receiver data_sender_entity_color
     data_receiver_entity_color purpose_color idx segment data_collection_purpose =
     (let g1 = (if \<not> has_node g data_sender
                then add_node g data_sender
                       \<lparr>node_color = Some data_sender_entity_color, node_size = Some 40,
                        node_title = Some (if data_sender = [] then ''unknown'' else data_sender),
                        node_shape = None\<rparr>
                else g);
          g2 = (if \<not> has_node g1 data_type \<and> data_type \<noteq> []
                then add_node g1 data_type
                       \<lparr>node_color = Some ''#99ccff'', node_size = Some 20,
                        node_title = Some data_type, node_shape = Some ''box''\<rparr>
                else g1);
          g3 = (if \<not> has_node g2 data_receiver
                then add_node g2 data_receiver
                       \<lparr>node_color = Some data_receiver_entity_color, node_size = Some 40,
                        node_title = Some data_receiver, node_shape = None\<rparr>
                else g2);
          g4 = (if \<not> has_edge g3 data_sender data_type
                then add_edge g3 data_sender data_type idx purpose_color segment
                       data_collection_purpose ''to''
                else g3);
          g5 = (if \<not> has_edge g4 data_type data_receiver
                then add_edge g4 data_type data_receiver idx purpose_color segment
                       data_collection_purpose ''to''
                else g4)
      in g5)"

text \<open>
  The body of the validity gate (lines 477 to 550) for a record whose normalized triple
  is \<open>(data_type, data_sender, data_receiver)\<close> and whose category is \<open>data_category\<close>.
\<close>

definition accept_record ::
  "env \<Rightarrow> string \<Rightarrow> flow_record \<Rightarrow> json \<Rightarrow> string \<Rightarrow> string \<Rightarrow> string \<Rightarrow> builder_state \<Rightarrow>
   py_error + builder_state" where
  "accept_record ev main_party r data_category data_type data_sender data_receiver st =
     (let st1 = record_flow data_sender data_type data_receiver st
      in case collection_party ev main_party (data_collection_party_json r) data_receiver of
           Inl e \<Rightarrow> Inl e | Inr data_collection_party \<Rightarrow>
         (case collection_purpose (data_collection_purpose_json r) of
           Inl e \<Rightarrow> Inl e | Inr data_collection_purpose \<Rightarrow>
         (case collection_method (data_collection_method_json r) data_type of
           Inl e \<Rightarrow> Inl e | Inr data_collection_method \<Rightarrow>
         (let (data_sender_entity_color, reg1) =
                get_entity_property (nlp ev) data_sender data_collection_party main_party
                  (registry st1);
              (data_receiver_entity_color, reg2) =
                get_entity_property (nlp ev) data_receiver data_collection_party main_party reg1;
              purpose_color = (case map_of (purpose_color_map ev) data_collection_purpose of
                                 Some c \<Rightarrow> c | None \<Rightarrow> ''ff000000'')
          in Inr (st1\<lparr>G := add_flow_to_graph (G st1) data_sender data_type data_receiver
                              data_sender_entity_color data_receiver_entity_color purpose_color
                              (raw_idx r) (raw_text r) data_collection_purpose,
                      registry := reg2,
                      data_output_arr := data_output_arr st1 @
                        [\<lparr>out_raw_text = raw_text r, out_data_type = data_type,
                          out_data_category = data_category, out_data_sender = data_sender,
                          out_data_receiver = data_receiver,
                          out_collection_party = data_collection_party,
                          out_collection_purpose = data_collection_purpose,
                          out_collection_method = data_collection_method\<rparr>]\<rparr>)))))"

subsection \<open>The loop over the records\<close>

text \<open>
  One iteration of the loop (lines 421 to 550) on a record already read: category
  bookkeeping, flow extraction, normalization, validity gate.
\<close>

definition process_record ::
  "env \<Rightarrow> string \<Rightarrow> builder_state \<Rightarrow> flow_record \<Rightarrow> py_error + builder_state" where
  "process_record ev main_party st r =
     (case extract_category (data_category_json r) of Inl e \<Rightarrow> Inl e | Inr data_category \<Rightarrow>
      (let st1 = st\<lparr>data_category_dic :=
                      dict_set_if_absent (data_category_dic st) (raw_data_type r) data_category\<rparr>
       in case extract_flow (data_flow_json r) of Inl e \<Rightarrow> Inl e | Inr (sender0, receiver0) \<Rightarrow>
          (case normalize_triple ev (abbreviation_dict st1) (raw_data_type r) sender0 receiver0 of
             Inl e \<Rightarrow> Inl e
           | Inr ((data_type, data_sender, data_receiver), d) \<Rightarrow>
               (let st2 = st1\<lparr>abbreviation_dict := d\<rparr>
                in if data_sender \<noteq> data_type \<and> data_receiver \<noteq> data_type
                      \<and> data_sender \<noteq> data_receiver
                   then accept_record ev main_party r data_category data_type data_sender
                          data_receiver st2
                   else Inr st2))))"

definition row_step ::
  "env \<Rightarrow> string \<Rightarrow> (string \<Rightarrow> string option) \<Rightarrow> builder_state \<Rightarrow> string list \<Rightarrow>
   py_error + builder_state" where
  "row_step ev main_party text_dictrionary st row =
     (case read_record ev text_dictrionary row of
        Inl e \<Rightarrow> Inl e
      | Inr r \<Rightarrow> process_record ev main_party st r)"

fun process_rows ::
  "env \<Rightarrow> string \<Rightarrow> (string \<Rightarrow> string option) \<Rightarrow> builder_state \<Rightarrow> string list list \<Rightarrow>
   py_error + builder_state" where
  "process_rows ev main_party text_dictrionary st [] = Inr st"
| "process_rows ev main_party text_dictrionary st (row # rows) =
     (case row_step ev main_party text_dictrionary st row of
        Inl e \<Rightarrow> Inl e
      | Inr st' \<Rightarrow> process_rows ev main_party text_dictrionary st' rows)"

text \<open>
  \<^verbatim>\<open>get_data_flow_graph_revised(input_file, main_party, csv_file)\<close>: the two files are
  given by their rows after the header. An exception raised while a row is processed
  leaves the loop and the function.
\<close>

definition get_data_flow_graph_revised ::
  "env \<Rightarrow> string list list \<Rightarrow> string \<Rightarrow> string list list \<Rightarrow> py_error + builder_state" where
  "get_data_flow_graph_revised ev input_rows main_party text_rows =
     (case read_text_segment Map.empty text_rows of
        Inl e \<Rightarrow> Inl e
      | Inr text_dictrionary \<Rightarrow>
          process_rows ev main_party text_dictrionary initial_state input_rows)"

subsection \<open>Notions used to state the properties of the builder\<close>

text \<open>The validity gate of line 476.\<close>

definition valid_triple :: "string \<Rightarrow> string \<Rightarrow> string \<Rightarrow> bool" where
  "valid_triple data_type data_sender data_receiver =
     (data_sender \<noteq> data_type \<and> data_receiver \<noteq> data_type \<and> data_sender \<noteq> data_receiver)"

text \<open>The output rows only grow, and each new row passed the validity gate.\<close>

definition row_valid :: "output_row \<Rightarrow> bool" where
  "row_valid row =
     valid_triple (out_data_type row) (out_data_sender row) (out_data_receiver row)"

text \<open>The ordered pairs joined by the edges, one entry per edge.\<close>

definition edge_pairs :: "graph \<Rightarrow> (string \<times> string) list" where
  "edge_pairs g = map (\<lambda>e. (edge_src e, edge_dst e)) (edges g)"

text \<open>The edges of the later state are those of the earlier one, followed by new ones.\<close>

definition edges_extend :: "builder_state \<Rightarrow> builder_state \<Rightarrow> bool" where
  "edges_extend st st' =
     (\<exists>new. edges (G st') = edges (G st) @ new)"

text \<open>The composite key of an output row.\<close>

definition row_key :: "output_row \<Rightarrow> string" where
  "row_key row = flow_key (out_data_sender row) (out_data_type row) (out_data_receiver row)"

text \<open>Every recorded key is the key of an accepted row of the matching shape.\<close>

definition keys_from_rows :: "builder_state \<Rightarrow> bool" where
  "keys_from_rows st =
     (list_all (\<lambda>k. list_ex (\<lambda>row. k = row_key row \<and> out_data_sender row \<noteq> []
                                    \<and> out_data_receiver row \<noteq> []) (data_output_arr st))
               (data_flow_completed_arr st)
      \<and> list_all (\<lambda>k. list_ex (\<lambda>row. k = row_key row \<and> out_data_sender row = []
                                    \<and> out_data_receiver row \<noteq> []) (data_output_arr st))
               (data_flow_no_sender_arr st)
      \<and> list_all (\<lambda>k. list_ex (\<lambda>row. k = row_key row \<and> out_data_sender row \<noteq> []
                                    \<and> out_data_receiver row = []) (data_output_arr st))
               (data_flow_no_receiver_arr st))"


subsection \<open>A sample document\<close>

text \<open>
  A stand-in parser that knows a handful of cells, a stand-in inflection engine, a
  stand-in linguistic parser that takes the last word of a phrase as its root, and two
  purposes of the taxonomy.
\<close>

definition output_of :: "string \<Rightarrow> json" where
  "output_of category = JObj [(''Output'', JArr [JObj [(''DataCategory'', JStr category),
                                                      (''InputText'', JStr ''we collect your email address'')]])]"

definition flow_of :: "string \<Rightarrow> string \<Rightarrow> json" where
  "flow_of data_sender data_receiver =
     JObj [(''data'', JArr [JObj [(''data_sender'', JStr data_sender),
                                  (''data_receiver'', JStr data_receiver)]])]"

definition sample_documents :: "(string \<times> json) list" where
  "sample_documents =
     [(''{contact}'', output_of ''Contact''),
      (''{third}'', output_of ''Third Party''),
      (''{marketing}'', output_of ''Marketing''),
      (''{service}'', output_of ''Service Provision''),
      (''{direct}'', output_of ''Direct''),
      (''{Audi -> Dealers}'', flow_of ''Audi'' ''Dealers''),
      (''{Audi -> Insurer}'', flow_of ''Audi'' ''Insurer''),
      (''{Email Address -> Insurer}'', flow_of ''Email Address'' ''Insurer''),
      (''{#a -> c}'', flow_of ''#a'' ''c''),
      (''{ -> b#c}'', flow_of [] ''b#c''),
      (''{ -> Audi}'', flow_of [] ''Audi''),
      (''{User -> }'', flow_of ''User'' [])]"

definition sample_env :: env where
  "sample_env =
     \<lparr>json_loads = map_of sample_documents,
      singular_noun = map_of [(''Dealers'', ''Dealer''), (''Addresses'', ''Address'')],
      nlp = (\<lambda>phrase. case py_split phrase of
                         [] \<Rightarrow> []
                       | w # ws \<Rightarrow> [\<lparr>tok_text = last (w # ws), tok_dep = ''ROOT'', tok_pos = ''NOUN''\<rparr>]),
      purpose_color_map = [(''Marketing; '', ''#e64545''), (''Service Provision; '', ''#45e645'')]\<rparr>"

definition sample_text_rows :: "string list list" where
  "sample_text_rows = [[''1'', ''We share your email address with dealers.''],
                       [''2'', ''Insurers receive your email address.''],
                       [''3'', ''Email addresses are collected.'']]"

definition first_record :: "string list" where
  "first_record = [''1'', ''Email Address'', ''{contact}'', ''{Audi -> Dealers}'', ''{third}'',
                   ''{marketing}'', ''{direct}'']"

definition second_record :: "string list" where
  "second_record = [''2'', ''Email Address'', ''{contact}'', ''{Audi -> Insurer}'', ''{third}'',
                    ''{service}'', ''{direct}'']"

definition two_records_state :: builder_state where
  "two_records_state =
     \<lparr>G = \<lparr>nodes =
             [(''audi'', \<lparr>node_color = Some ''#ccff99'', node_size = Some 40,
                          node_title = Some ''audi'', node_shape = None\<rparr>),
              (''email address'', \<lparr>node_color = Some ''#99ccff'', node_size = Some 20,
                          node_title = Some ''email address'', node_shape = Some ''box''\<rparr>),
              (''dealer'', \<lparr>node_color = Some ''#ff99ff'', node_size = Some 40,
                          node_title = Some ''dealer'', node_shape = None\<rparr>),
              (''insurer'', \<lparr>node_color = Some ''#ff99ff'', node_size = Some 40,
                          node_title = Some ''insurer'', node_shape = None\<rparr>)],
            edges =
             [\<lparr>edge_src = ''audi'', edge_dst = ''email address'', edge_key = 0,
               edge_group = ''1'', edge_color = ''#e64545'',
               edge_description = ''We share your email address with dealers.'',
               edge_title = ''Marketing; '', edge_arrows = ''to''\<rparr>,
              \<lparr>edge_src = ''email address'', edge_dst = ''dealer'', edge_key = 0,
               edge_group = ''1'', edge_color = ''#e64545'',
               edge_description = ''We share your email address with dealers.'',
               edge_title = ''Marketing; '', edge_arrows = ''to''\<rparr>,
              \<lparr>edge_src = ''email address'', edge_dst = ''insurer'', edge_key = 0,
               edge_group = ''2'', edge_color = ''#45e645'',
               edge_description = ''Insurers receive your email address.'',
               edge_title = ''Service Provision; '', edge_arrows = ''to''\<rparr>]\<rparr>,
      abbreviation_dict = [],
      registry = \<lparr>first_party = [''audi''], third_party = [''dealer'', ''insurer''],
                  user_party = []\<rparr>,
      data_flow_completed_arr = [''audi#email address#dealer'', ''audi#email address#insurer''],
      data_flow_no_sender_arr = [], data_flow_no_receiver_arr = [],
      data_category_dic = [(''Email Address'', JStr ''Contact'')],
      data_output_arr =
        [\<lparr>out_raw_text = ''We share your email address with dealers.'',
          out_data_type = ''email address'', out_data_category = JStr ''Contact'',
          out_data_sender = ''audi'', out_data_receiver = ''dealer'',
          out_collection_party = JStr ''Third Party'',
          out_collection_purpose = ''Marketing; '', out_collection_method = JStr ''Direct''\<rparr>,
         \<lparr>out_raw_text = ''Insurers receive your email address.'',
          out_data_type = ''email address'', out_data_category = JStr ''Contact'',
          out_data_sender = ''audi'', out_data_receiver = ''insurer'',
          out_collection_party = JStr ''Third Party'',
          out_collection_purpose = ''Service Provision; '',
          out_collection_method = JStr ''Direct''\<rparr>]\<rparr>"

definition delimiter_records :: "string list list" where
  "delimiter_records =
     [[''1'', ''b'', ''{contact}'', ''{#a -> c}'', ''{third}'', ''{marketing}'', ''{direct}''],
      [''2'', ''a'', ''{contact}'', ''{ -> b#c}'', ''{third}'', ''{marketing}'', ''{direct}'']]"



definition three_records :: "string list list" where
  "three_records =
     [first_record,
      [''2'', ''Email Address'', ''{contact}'', ''{ -> Audi}'', ''{third}'', ''{service}'',
       ''{direct}''],
      [''3'', ''Email Address'', ''{contact}'', ''{User -> }'', ''{third}'', ''{service}'',
       ''{direct}'']]"

definition three_records_state :: builder_state where
  "three_records_state =
     projr (get_data_flow_graph_revised sample_env three_records ''audi'' sample_text_rows)"



section \<open>Metrics engine: top-N selection\<close>

text \<open>
  \<^verbatim>\<open>
  def process(input_data, top_n):
      if top_n > 0:
          sorted_results = sorted(input_data.items(), key=lambda x: x[1], reverse=True)
          sorted_results = sorted_results[:top_n]
      else:
          sorted_results = sorted(input_data.items(), key=lambda x: x[1], reverse=False)
          sorted_results = sorted_results[:top_n]
      return sorted_results
  \<close>
  The dictionary is given by its items in iteration order.
\<close>

definition process :: "('k \<times> 's::linorder) list \<Rightarrow> int \<Rightarrow> ('k \<times> 's) list" where
  "process input_data top_n =
     (if top_n > 0 then py_slice_to (py_sorted_by_score True input_data) top_n
      else py_slice_to (py_sorted_by_score False input_data) top_n)"

definition five_node_ranking :: "(string \<times> int) list" where
  "five_node_ranking = [(''c'', 3), (''a'', 1), (''e'', 5), (''b'', 2), (''d'', 4)]"

section \<open>Flow classifier: derived scores\<close>

text \<open>
  \<^verbatim>\<open>get_network_stats(G, option, top_n)\<close> calls one of three centrality functions
  of the graph library and passes the resulting dictionary to \<open>process\<close>; an option
  that is none of the three falls off the end of the function, which returns \<^verbatim>\<open>None\<close>.
  The three dictionaries computed by the library are a parameter.
\<close>

record 's centralities =
  betweenness_centrality :: "(string \<times> 's) list"
  closeness_centrality :: "(string \<times> 's) list"
  degree_centrality :: "(string \<times> 's) list"

definition get_network_stats ::
  "('s::linorder) centralities \<Rightarrow> string \<Rightarrow> int \<Rightarrow> (string \<times> 's) list option" where
  "get_network_stats nx option top_n =
     (if option = ''betweenness'' then Some (process (betweenness_centrality nx) top_n)
      else if option = ''closeness'' then Some (process (closeness_centrality nx) top_n)
      else if option = ''centrality'' then Some (process (degree_centrality nx) top_n)
      else None)"

text \<open>Python's true division of two counts: a zero divisor raises.\<close>

definition py_truediv :: "nat \<Rightarrow> nat \<Rightarrow> py_error + rat" where
  "py_truediv a b = (if b = 0 then Inl ZeroDivisionError else Inr (of_nat a / of_nat b))"

text \<open>
  \<^verbatim>\<open>
  def get_percentage(input_data, entity_arr):
      count = 0
      tmp_arr = []
      if input_data is not None:
          for item in input_data:
              tmp_arr.append(item[0])
          for item in tmp_arr:
              if item in entity_arr:
                  count += 1
          return count / len(input_data)
      else:
          return None
  \<close>
\<close>

definition get_percentage ::
  "(string \<times> 's) list option \<Rightarrow> string list \<Rightarrow> py_error + rat option" where
  "get_percentage input_data entity_arr =
     (case input_data of
        None \<Rightarrow> Inr None
      | Some items \<Rightarrow>
          (let tmp_arr = map fst items;
               count = length (filter (\<lambda>item. item \<in> set entity_arr) tmp_arr)
           in case py_truediv count (length items) of
                Inl e \<Rightarrow> Inl e
              | Inr q \<Rightarrow> Inr (Some q)))"

text \<open>
  The entries appended to \<^verbatim>\<open>stats_data\<close> by lines 956 to 995 of
  \<^verbatim>\<open>post_processing\<close>, in order. The seven transition counters computed by the
  loop above those lines are given as a record; \<open>completed_arr\<close>, \<open>no_sender_arr\<close>
  and \<open>no_receiver_arr\<close> are the three lists of flow keys returned by the builder.
\<close>

datatype stat = StatInt nat | StatNum rat | StatNone

record flow_counts =
  count_u_2_f :: nat
  count_u_2_t :: nat
  count_f_2_u :: nat
  count_f_2_t :: nat
  count_f_2_f :: nat
  count_t_2_t :: nat
  count_t_2_f :: nat

fun truediv_all :: "nat list \<Rightarrow> nat \<Rightarrow> py_error + stat list" where
  "truediv_all [] d = Inr []"
| "truediv_all (c # cs) d =
     (case py_truediv c d of
        Inl e \<Rightarrow> Inl e
      | Inr q \<Rightarrow> (case truediv_all cs d of Inl e \<Rightarrow> Inl e | Inr qs \<Rightarrow> Inr (StatNum q # qs)))"

definition stat_of_score :: "rat option \<Rightarrow> stat" where
  "stat_of_score s = (case s of None \<Rightarrow> StatNone | Some q \<Rightarrow> StatNum q)"

definition derived_scores ::
  "('s::linorder) centralities \<Rightarrow> string \<Rightarrow> int \<Rightarrow> flow_counts \<Rightarrow> string list \<Rightarrow>
   string list \<Rightarrow> string list \<Rightarrow> string list \<Rightarrow> string list \<Rightarrow> string list \<Rightarrow> string list \<Rightarrow>
   py_error + stat list" where
  "derived_scores nx option top_n counts data_type_arr first_party_arr third_party_arr
     user_party_arr completed_arr no_sender_arr no_receiver_arr =
     (let total_data_flows = length completed_arr + length no_sender_arr
                             + length no_receiver_arr
      in case truediv_all [count_u_2_f counts, count_f_2_f counts, count_t_2_f counts,
                           count_u_2_t counts, count_f_2_t counts, count_t_2_t counts,
                           count_f_2_u counts] total_data_flows of
           Inl e \<Rightarrow> Inl e
         | Inr shares \<Rightarrow>
        (case py_truediv (length no_receiver_arr + length no_sender_arr)
                         (length completed_arr) of
           Inl e \<Rightarrow> Inl e
         | Inr transparency_score \<Rightarrow>
        (case py_truediv (length third_party_arr)
                (length first_party_arr + length user_party_arr + length third_party_arr) of
           Inl e \<Rightarrow> Inl e
         | Inr third_party_score \<Rightarrow>
        (case get_percentage (get_network_stats nx option top_n) first_party_arr of
           Inl e \<Rightarrow> Inl e
         | Inr score_first \<Rightarrow>
        (case get_percentage (get_network_stats nx option top_n) third_party_arr of
           Inl e \<Rightarrow> Inl e
         | Inr score_third \<Rightarrow>
        (case get_percentage (get_network_stats nx option top_n) data_type_arr of
           Inl e \<Rightarrow> Inl e
         | Inr score_type \<Rightarrow>
             Inr (StatInt total_data_flows # shares
                  @ [StatNum transparency_score, StatNum third_party_score,
                     stat_of_score score_first, stat_of_score score_third,
                     stat_of_score score_type])))))))"

text \<open>
  The overlap fraction in the words of the specification: the share of the ranked node
  keys that occur in the given list, and the explicit null for a null ranking.
\<close>

definition overlap_fraction :: "(string \<times> 's) list option \<Rightarrow> string list \<Rightarrow> stat" where
  "overlap_fraction ranking entity_arr =
     (case ranking of
        None \<Rightarrow> StatNone
      | Some items \<Rightarrow>
          StatNum (of_nat (length (filter (\<lambda>item. fst item \<in> set entity_arr) items))
                   / of_nat (length items)))"

text \<open>A small run used to evaluate the scores.\<close>

definition sample_centralities :: "rat centralities" where
  "sample_centralities =
     \<lparr>betweenness_centrality = [(''audi'', 1 / 2), (''email'', 1 / 3), (''user'', 0)],
      closeness_centrality = [(''audi'', 1 / 2), (''email'', 1 / 3), (''user'', 0)],
      degree_centrality = [(''audi'', 1), (''email'', 1), (''user'', 1 / 2)]\<rparr>"

definition sample_counts :: flow_counts where
  "sample_counts = \<lparr>count_u_2_f = 1, count_u_2_t = 0, count_f_2_u = 0, count_f_2_t = 0,
                     count_f_2_f = 0, count_t_2_t = 0, count_t_2_f = 0\<rparr>"


definition eight_completed :: "string list" where
  "eight_completed = [''user#email#audi'', ''user#name#audi'', ''user#phone#audi'',
     ''user#location#audi'', ''audi#email#dealer'', ''audi#name#dealer'',
     ''audi#phone#dealer'', ''audi#location#dealer'']"

section \<open>Verification sampler\<close>




text \<open>
  \<^verbatim>\<open>sampling_size = int(len(input_data) * sampling_rate)\<close>: the conversion truncates
  towards zero. The rate is an exact rational here.
\<close>

definition py_int :: "rat \<Rightarrow> int" where
  "py_int q = (if 0 \<le> q then \<lfloor>q\<rfloor> else \<lceil>q\<rceil>)"




section \<open>Metrics engine: tree detection\<close>

text \<open>
  \<^verbatim>\<open>
  def finding_tree(G):
      G = G.to_undirected()
      trees = []
      for component in nx.connected_components(G):
          subgraph = G.subgraph(component)
          if nx.is_tree(subgraph):
              trees.append(subgraph)
      ...
      return trees
  \<close>
  The four operations are the graph library's; they are modelled by what the library
  documents. The undirected copy of a directed multigraph is an undirected multigraph:
  it has the same nodes, and every directed edge is added under its own key, so that two
  edges with the same key on the same unordered pair of nodes become one edge. An edge
  is written by one of its two orientations and its key.
\<close>

record ugraph =
  unodes :: "node_id list"
  uedges :: "(node_id \<times> node_id \<times> nat) list"




text \<open>
  Two nodes are connected when a walk along the edges, in either direction, leads from
  one to the other. \<^verbatim>\<open>nx.connected_components\<close> yields, for every node not seen so
  far, the set of the nodes connected to it.
\<close>

definition adjacency :: "ugraph \<Rightarrow> (node_id \<times> node_id) list" where
  "adjacency ug = concat (map (\<lambda>e. [(fst e, fst (snd e)), (fst (snd e), fst e)]) (uedges ug))"

definition reachable :: "ugraph \<Rightarrow> node_id \<Rightarrow> node_id \<Rightarrow> bool" where
  "reachable ug v w = ((v, w) \<in> (set (adjacency ug))\<^sup>*)"








text \<open>
  A breadth-first computation of the nodes connected to a node: \<open>expand\<close> adds the
  neighbours of the nodes found so far; as many rounds as there are adjacency pairs
  reach every connected node.
\<close>

definition expand :: "(node_id \<times> node_id) list \<Rightarrow> node_id list \<Rightarrow> node_id list" where
  "expand adj vs = remdups (vs @ map snd (filter (\<lambda>p. fst p \<in> set vs) adj))"

definition reached :: "ugraph \<Rightarrow> node_id \<Rightarrow> node_id list" where
  "reached ug v = ((expand (adjacency ug)) ^^ (length (adjacency ug))) [v]"







section \<open>Properties of abbreviation folding\<close>





















section \<open>Properties of the graph builder\<close>

text \<open>
  The loops of \<open>rectify_collection_party\<close> compute a disjunction; evaluation uses it.
\<close>

lemma rectify_loop_eq:
  "rectify_loop parser entity flag items =
     (entity \<in> set items \<or> flag
      \<or> (items \<noteq> [] \<and> get_main parser entity \<in> set first_party_entity_main_root_arr
          \<and> get_poss parser entity \<in> set first_party_entity_poss_arr))"
  by (induction items arbitrary: flag) (auto simp: list_ex_iff)

lemma rectify_collection_party_code [code]:
  "rectify_collection_party parser entity =
     (entity \<in> set first_party_entity_arr
      \<or> (get_main parser entity \<in> set first_party_entity_main_root_arr
          \<and> get_poss parser entity \<in> set first_party_entity_poss_arr))"
  by (simp add: rectify_collection_party_def rectify_loop_eq first_party_entity_arr_def)

lemma record_flow_fields [simp]:
  "G (record_flow s t r st) = G st"
  "registry (record_flow s t r st) = registry st"
  "data_output_arr (record_flow s t r st) = data_output_arr st"
  "data_category_dic (record_flow s t r st) = data_category_dic st"
  "abbreviation_dict (record_flow s t r st) = abbreviation_dict st"
  by (simp_all add: record_flow_def Let_def)

lemma accept_record_result:
  assumes "accept_record ev main_party r data_category data_type data_sender data_receiver st = Inr st'"
  shows "\<exists>party purpose method sender_color receiver_color purpose_color reg.
     st' = (record_flow data_sender data_type data_receiver st)
             \<lparr>G := add_flow_to_graph (G st) data_sender data_type data_receiver
                     sender_color receiver_color purpose_color (raw_idx r) (raw_text r) purpose,
              registry := reg,
              data_output_arr := data_output_arr st @
                 [\<lparr>out_raw_text = raw_text r, out_data_type = data_type,
                   out_data_category = data_category, out_data_sender = data_sender,
                   out_data_receiver = data_receiver, out_collection_party = party,
                   out_collection_purpose = purpose, out_collection_method = method\<rparr>]\<rparr>"
  using assms
  unfolding accept_record_def Let_def
  apply (auto split: sum.splits prod.splits)
  apply (intro exI)
  apply (rule refl)
  done

lemma process_record_result:
  assumes "process_record ev main_party st r = Inr st'"
  shows "\<exists>data_category data_type data_sender data_receiver d.
     (\<not> valid_triple data_type data_sender data_receiver
        \<and> st' = st\<lparr>data_category_dic :=
                       dict_set_if_absent (data_category_dic st) (raw_data_type r) data_category,
                    abbreviation_dict := d\<rparr>)
     \<or> (valid_triple data_type data_sender data_receiver
        \<and> accept_record ev main_party r data_category data_type data_sender data_receiver
             (st\<lparr>data_category_dic :=
                      dict_set_if_absent (data_category_dic st) (raw_data_type r) data_category,
                  abbreviation_dict := d\<rparr>) = Inr st')"
  using assms
  unfolding process_record_def Let_def valid_triple_def
  apply (simp split: sum.splits prod.splits if_splits)
   apply blast
  apply blast
  done


lemma row_step_result:
  assumes "row_step ev main_party text_dictrionary st row = Inr st'"
  shows "\<exists>r. read_record ev text_dictrionary row = Inr r
             \<and> process_record ev main_party st r = Inr st'"
  using assms unfolding row_step_def by (auto split: sum.splits)

lemma process_rows_invariant:
  assumes step: "\<And>st row st'. P st \<Longrightarrow> row_step ev main_party text_dictrionary st row = Inr st'
                   \<Longrightarrow> P st'"
    and "P st" and "process_rows ev main_party text_dictrionary st rows = Inr st'"
  shows "P st'"
  using assms(2,3)
proof (induction rows arbitrary: st)
  case Nil
  then show ?case by simp
next
  case (Cons row rows)
  from Cons.prems(2) obtain st1 where
    s1: "row_step ev main_party text_dictrionary st row = Inr st1"
    and rest: "process_rows ev main_party text_dictrionary st1 rows = Inr st'"
    by (auto split: sum.splits)
  from step[OF Cons.prems(1) s1] rest show ?case by (rule Cons.IH)
qed

lemma process_rows_append:
  "process_rows ev main_party text_dictrionary st (rows1 @ rows2) =
     (case process_rows ev main_party text_dictrionary st rows1 of
        Inl e \<Rightarrow> Inl e
      | Inr st1 \<Rightarrow> process_rows ev main_party text_dictrionary st1 rows2)"
  by (induction rows1 arbitrary: st) (auto split: sum.splits)

lemma process_record_output:
  assumes "process_record ev main_party st r = Inr st'"
  shows "data_output_arr st' = data_output_arr st
         \<or> (\<exists>row. row_valid row \<and> data_output_arr st' = data_output_arr st @ [row])"
proof -
  from process_record_result[OF assms] obtain data_category data_type data_sender data_receiver d
    where c: "(\<not> valid_triple data_type data_sender data_receiver
        \<and> st' = st\<lparr>data_category_dic :=
                       dict_set_if_absent (data_category_dic st) (raw_data_type r) data_category,
                    abbreviation_dict := d\<rparr>)
     \<or> (valid_triple data_type data_sender data_receiver
        \<and> accept_record ev main_party r data_category data_type data_sender data_receiver
             (st\<lparr>data_category_dic :=
                      dict_set_if_absent (data_category_dic st) (raw_data_type r) data_category,
                  abbreviation_dict := d\<rparr>) = Inr st')"
    by blast
  then show ?thesis
  proof
    assume "\<not> valid_triple data_type data_sender data_receiver
        \<and> st' = st\<lparr>data_category_dic :=
                       dict_set_if_absent (data_category_dic st) (raw_data_type r) data_category,
                    abbreviation_dict := d\<rparr>"
    then show ?thesis by simp
  next
    assume a: "valid_triple data_type data_sender data_receiver
        \<and> accept_record ev main_party r data_category data_type data_sender data_receiver
             (st\<lparr>data_category_dic :=
                      dict_set_if_absent (data_category_dic st) (raw_data_type r) data_category,
                  abbreviation_dict := d\<rparr>) = Inr st'"
    from accept_record_result[OF conjunct2[OF a]] a show ?thesis
      by (auto simp: row_valid_def)
  qed
qed

lemma row_step_rows_valid:
  assumes "list_all row_valid (data_output_arr st)"
    and "row_step ev main_party text_dictrionary st row = Inr st'"
  shows "list_all row_valid (data_output_arr st')"
proof -
  from row_step_result[OF assms(2)] obtain r where
    "process_record ev main_party st r = Inr st'" by blast
  from process_record_output[OF this] assms(1) show ?thesis by auto
qed

text \<open>
  Claim C5. Every row appended to the output rows, that is every record accepted into
  graph construction, has a normalized sender, data type and receiver that are pairwise
  distinct as strings; the empty string is a value like any other.
\<close>

theorem accepted_triples_pairwise_distinct:
  assumes "get_data_flow_graph_revised ev input_rows main_party text_rows = Inr st"
  shows "\<forall>row \<in> set (data_output_arr st).
           out_data_sender row \<noteq> out_data_type row
           \<and> out_data_receiver row \<noteq> out_data_type row
           \<and> out_data_sender row \<noteq> out_data_receiver row"
proof -
  from assms obtain text_dictrionary where
    run: "process_rows ev main_party text_dictrionary initial_state input_rows = Inr st"
    by (auto simp: get_data_flow_graph_revised_def split: sum.splits)
  have "list_all row_valid (data_output_arr initial_state)"
    by (simp add: initial_state_def)
  with run have "list_all row_valid (data_output_arr st)"
    using process_rows_invariant[of "\<lambda>s. list_all row_valid (data_output_arr s)"
        ev main_party text_dictrionary initial_state input_rows st] row_step_rows_valid
    by blast
  then show ?thesis
    by (simp add: list_all_iff row_valid_def valid_triple_def)
qed


lemma has_edge_pairs: "has_edge g u v \<longleftrightarrow> (u, v) \<in> set (edge_pairs g)"
  by (auto simp: has_edge_def edge_pairs_def list_ex_iff)

lemma edges_add_node [simp]: "edges (add_node g n attrs) = edges g"
  by (simp add: add_node_def)

lemma edges_add_edge:
  "\<exists>e. edge_src e = u \<and> edge_dst e = v
       \<and> edges (add_edge g u v grp col descr ttl arrows) = edges g @ [e]"
  by (simp add: add_edge_def Let_def)

lemma add_edge_if_absent:
  assumes "distinct (edge_pairs g)"
  shows "\<exists>new. edges (if \<not> has_edge g u v then add_edge g u v grp col descr ttl arrows else g)
                  = edges g @ new
               \<and> distinct (edge_pairs (if \<not> has_edge g u v
                                          then add_edge g u v grp col descr ttl arrows else g))"
proof (cases "has_edge g u v")
  case True
  with assms show ?thesis by simp
next
  case False
  from edges_add_edge[of u v g grp col descr ttl arrows] obtain e where
    e: "edge_src e = u" "edge_dst e = v"
       "edges (add_edge g u v grp col descr ttl arrows) = edges g @ [e]" by blast
  from False have "(u, v) \<notin> set (edge_pairs g)" by (simp add: has_edge_pairs)
  with assms e have "distinct (edge_pairs (add_edge g u v grp col descr ttl arrows))"
    by (simp add: edge_pairs_def)
  with False e show ?thesis by simp
qed

lemma edge_pairs_cong: "edges g = edges g' \<Longrightarrow> edge_pairs g = edge_pairs g'"
  by (simp add: edge_pairs_def)

lemma has_edge_cong: "edges g = edges g' \<Longrightarrow> has_edge g u v = has_edge g' u v"
  by (simp add: has_edge_def)

lemma add_flow_to_graph_edges:
  assumes "distinct (edge_pairs g)"
  shows "\<exists>new. edges (add_flow_to_graph g data_sender data_type data_receiver sc rc pc idx
                         segment purpose) = edges g @ new
               \<and> distinct (edge_pairs (add_flow_to_graph g data_sender data_type data_receiver
                                          sc rc pc idx segment purpose))"
proof -
  define g3 where "g3 =
     (let g1 = (if \<not> has_node g data_sender
                then add_node g data_sender
                       \<lparr>node_color = Some sc, node_size = Some 40,
                        node_title = Some (if data_sender = [] then ''unknown'' else data_sender),
                        node_shape = None\<rparr>
                else g);
          g2 = (if \<not> has_node g1 data_type \<and> data_type \<noteq> []
                then add_node g1 data_type
                       \<lparr>node_color = Some ''#99ccff'', node_size = Some 20,
                        node_title = Some data_type, node_shape = Some ''box''\<rparr>
                else g1)
      in (if \<not> has_node g2 data_receiver
                then add_node g2 data_receiver
                       \<lparr>node_color = Some rc, node_size = Some 40,
                        node_title = Some data_receiver, node_shape = None\<rparr>
                else g2))"
  define g4 where "g4 = (if \<not> has_edge g3 data_sender data_type
                then add_edge g3 data_sender data_type idx pc segment purpose ''to''
                else g3)"
  define g5 where "g5 = (if \<not> has_edge g4 data_type data_receiver
                then add_edge g4 data_type data_receiver idx pc segment purpose ''to''
                else g4)"
  have res: "add_flow_to_graph g data_sender data_type data_receiver sc rc pc idx segment purpose
             = g5"
    by (simp add: add_flow_to_graph_def g3_def g4_def g5_def Let_def)
  have e3: "edges g3 = edges g" by (simp add: g3_def Let_def)
  then have d3: "distinct (edge_pairs g3)" using assms edge_pairs_cong by metis
  from add_edge_if_absent[OF d3, of data_sender data_type idx pc segment purpose "''to''"]
  obtain new1 where n1: "edges g4 = edges g3 @ new1" and d4: "distinct (edge_pairs g4)"
    unfolding g4_def by blast
  from add_edge_if_absent[OF d4, of data_type data_receiver idx pc segment purpose "''to''"]
  obtain new2 where n2: "edges g5 = edges g4 @ new2" and d5: "distinct (edge_pairs g5)"
    unfolding g5_def by blast
  from n1 n2 e3 have "edges g5 = edges g @ (new1 @ new2)" by simp
  with d5 res show ?thesis by metis
qed

lemma process_record_edges:
  assumes d: "distinct (edge_pairs (G st))"
    and run: "process_record ev main_party st r = Inr st'"
  shows "distinct (edge_pairs (G st')) \<and> edges_extend st st'"
proof -
  from process_record_result[OF run] obtain data_category data_type data_sender data_receiver d'
    where c: "(\<not> valid_triple data_type data_sender data_receiver
        \<and> st' = st\<lparr>data_category_dic :=
                       dict_set_if_absent (data_category_dic st) (raw_data_type r) data_category,
                    abbreviation_dict := d'\<rparr>)
     \<or> (valid_triple data_type data_sender data_receiver
        \<and> accept_record ev main_party r data_category data_type data_sender data_receiver
             (st\<lparr>data_category_dic :=
                      dict_set_if_absent (data_category_dic st) (raw_data_type r) data_category,
                  abbreviation_dict := d'\<rparr>) = Inr st')"
    by blast
  then show ?thesis
  proof
    assume "\<not> valid_triple data_type data_sender data_receiver
        \<and> st' = st\<lparr>data_category_dic :=
                       dict_set_if_absent (data_category_dic st) (raw_data_type r) data_category,
                    abbreviation_dict := d'\<rparr>"
    with d show ?thesis by (simp add: edges_extend_def)
  next
    assume a: "valid_triple data_type data_sender data_receiver
        \<and> accept_record ev main_party r data_category data_type data_sender data_receiver
             (st\<lparr>data_category_dic :=
                      dict_set_if_absent (data_category_dic st) (raw_data_type r) data_category,
                  abbreviation_dict := d'\<rparr>) = Inr st'"
    from accept_record_result[OF conjunct2[OF a]]
    obtain sc rc pc purpose where
      g: "G st' = add_flow_to_graph (G st) data_sender data_type data_receiver sc rc pc
                    (raw_idx r) (raw_text r) purpose"
      by auto
    from add_flow_to_graph_edges[OF d, of data_sender data_type data_receiver sc rc pc
        "raw_idx r" "raw_text r" purpose]
    show ?thesis by (simp add: g edges_extend_def)
  qed
qed

lemma edges_extend_refl: "edges_extend st st"
  by (simp add: edges_extend_def)

lemma edges_extend_trans: "edges_extend a b \<Longrightarrow> edges_extend b c \<Longrightarrow> edges_extend a c"
  by (auto simp: edges_extend_def)

lemma process_rows_edges:
  assumes "distinct (edge_pairs (G st))"
    and "process_rows ev main_party text_dictrionary st rows = Inr st'"
  shows "distinct (edge_pairs (G st')) \<and> edges_extend st st'"
  using assms
proof (induction rows arbitrary: st)
  case Nil
  then show ?case by (simp add: edges_extend_refl)
next
  case (Cons row rows)
  from Cons.prems(2) obtain st1 where
    s1: "row_step ev main_party text_dictrionary st row = Inr st1"
    and rest: "process_rows ev main_party text_dictrionary st1 rows = Inr st'"
    by (auto split: sum.splits)
  from row_step_result[OF s1] obtain r where
    "process_record ev main_party st r = Inr st1" by blast
  from process_record_edges[OF Cons.prems(1) this]
  have d1: "distinct (edge_pairs (G st1))" and x1: "edges_extend st st1" by simp_all
  from Cons.IH[OF d1 rest] x1 show ?case
    using edges_extend_trans by blast
qed

text \<open>
  Claim C6. The graph built from any document has at most one edge on every ordered pair
  of nodes, and the edges built from a prefix of the document are kept as they are when the
  rest of the document is processed: the first record on a pair decides the edge and its
  attributes.
\<close>

theorem one_edge_per_ordered_pair:
  assumes "get_data_flow_graph_revised ev (rows1 @ rows2) main_party text_rows = Inr st2"
  shows "distinct (map (\<lambda>e. (edge_src e, edge_dst e)) (edges (G st2)))
         \<and> (\<exists>st1 new. get_data_flow_graph_revised ev rows1 main_party text_rows = Inr st1
                      \<and> edges (G st2) = edges (G st1) @ new)"
proof -
  from assms obtain text_dictrionary where
    td: "read_text_segment Map.empty text_rows = Inr text_dictrionary"
    and run: "process_rows ev main_party text_dictrionary initial_state (rows1 @ rows2) = Inr st2"
    by (auto simp: get_data_flow_graph_revised_def split: sum.splits)
  from run obtain st1 where
    run1: "process_rows ev main_party text_dictrionary initial_state rows1 = Inr st1"
    and run2: "process_rows ev main_party text_dictrionary st1 rows2 = Inr st2"
    by (auto simp: process_rows_append split: sum.splits)
  have d0: "distinct (edge_pairs (G initial_state))"
    by (simp add: initial_state_def empty_graph_def edge_pairs_def)
  from process_rows_edges[OF d0 run1] have d1: "distinct (edge_pairs (G st1))" by simp
  from process_rows_edges[OF d1 run2]
  have d2: "distinct (edge_pairs (G st2))" and x: "edges_extend st1 st2" by simp_all
  have "get_data_flow_graph_revised ev rows1 main_party text_rows = Inr st1"
    by (simp add: get_data_flow_graph_revised_def td run1)
  with d2 x show ?thesis
    by (auto simp: edge_pairs_def edges_extend_def)
qed


lemma keys_from_rows_accept:
  assumes inv: "keys_from_rows st"
    and acc: "accept_record ev main_party r data_category data_type data_sender data_receiver st
              = Inr st'"
  shows "keys_from_rows st'"
proof -
  from accept_record_result[OF acc] obtain party purpose how g reg where
    st': "st' = (record_flow data_sender data_type data_receiver st)
             \<lparr>G := g, registry := reg,
              data_output_arr := data_output_arr st @
                 [\<lparr>out_raw_text = raw_text r, out_data_type = data_type,
                   out_data_category = data_category, out_data_sender = data_sender,
                   out_data_receiver = data_receiver, out_collection_party = party,
                   out_collection_purpose = purpose, out_collection_method = how\<rparr>]\<rparr>"
    by blast
  show ?thesis
    using inv
    unfolding st' keys_from_rows_def record_flow_def Let_def append_if_absent_def
    by (auto simp: list_all_iff list_ex_iff row_key_def)
qed

lemma keys_from_rows_record:
  assumes inv: "keys_from_rows st"
    and run: "process_record ev main_party st r = Inr st'"
  shows "keys_from_rows st'"
proof -
  from process_record_result[OF run] obtain data_category data_type data_sender data_receiver d'
    where c: "(\<not> valid_triple data_type data_sender data_receiver
        \<and> st' = st\<lparr>data_category_dic :=
                       dict_set_if_absent (data_category_dic st) (raw_data_type r) data_category,
                    abbreviation_dict := d'\<rparr>)
     \<or> (valid_triple data_type data_sender data_receiver
        \<and> accept_record ev main_party r data_category data_type data_sender data_receiver
             (st\<lparr>data_category_dic :=
                      dict_set_if_absent (data_category_dic st) (raw_data_type r) data_category,
                  abbreviation_dict := d'\<rparr>) = Inr st')"
    by blast
  have inv': "keys_from_rows (st\<lparr>data_category_dic :=
                      dict_set_if_absent (data_category_dic st) (raw_data_type r) data_category,
                  abbreviation_dict := d'\<rparr>)"
    using inv by (simp add: keys_from_rows_def)
  from c show ?thesis
  proof
    assume "\<not> valid_triple data_type data_sender data_receiver
        \<and> st' = st\<lparr>data_category_dic :=
                       dict_set_if_absent (data_category_dic st) (raw_data_type r) data_category,
                    abbreviation_dict := d'\<rparr>"
    with inv' show ?thesis by simp
  next
    assume "valid_triple data_type data_sender data_receiver
        \<and> accept_record ev main_party r data_category data_type data_sender data_receiver
             (st\<lparr>data_category_dic :=
                      dict_set_if_absent (data_category_dic st) (raw_data_type r) data_category,
                  abbreviation_dict := d'\<rparr>) = Inr st'"
    then show ?thesis using keys_from_rows_accept[OF inv'] by blast
  qed
qed

lemma keys_from_rows_step:
  assumes "keys_from_rows st" and "row_step ev main_party text_dictrionary st row = Inr st'"
  shows "keys_from_rows st'"
  using row_step_result[OF assms(2)] keys_from_rows_record[OF assms(1)] by blast

lemma keys_from_rows_run:
  assumes "get_data_flow_graph_revised ev input_rows main_party text_rows = Inr st"
  shows "keys_from_rows st"
proof -
  from assms obtain text_dictrionary where
    run: "process_rows ev main_party text_dictrionary initial_state input_rows = Inr st"
    by (auto simp: get_data_flow_graph_revised_def split: sum.splits)
  have "keys_from_rows initial_state"
    by (simp add: keys_from_rows_def initial_state_def)
  with run show ?thesis
    using process_rows_invariant[of keys_from_rows ev main_party text_dictrionary
        initial_state input_rows st] keys_from_rows_step
    by blast
qed

lemma flow_key_hd:
  "s \<noteq> [] \<Longrightarrow> hd (flow_key s t r) = hd s"
  "hd (flow_key [] t r) = CHR ''#''"
  by (simp_all add: flow_key_def)

lemma flow_key_last:
  "r \<noteq> [] \<Longrightarrow> last (flow_key s t r) = last r"
  "last (flow_key s t []) = CHR ''#''"
  by (simp_all add: flow_key_def)

lemma hd_in_set_str: "s \<noteq> [] \<Longrightarrow> hd s \<in> set s"
  by (cases s) simp_all

text \<open>
  Claim C7, amended. When no accepted sender and no accepted receiver contains the
  delimiter \<open>#\<close>, the three sets of composite keys are pairwise disjoint, and the key
  of a triple whose sender and receiver are both empty is in none of them.
\<close>

theorem flow_sets_disjoint_without_delimiter:
  assumes run: "get_data_flow_graph_revised ev input_rows main_party text_rows = Inr st"
    and clean: "\<forall>row \<in> set (data_output_arr st).
                  CHR ''#'' \<notin> set (out_data_sender row) \<and> CHR ''#'' \<notin> set (out_data_receiver row)"
  shows "set (data_flow_completed_arr st) \<inter> set (data_flow_no_sender_arr st) = {}
         \<and> set (data_flow_completed_arr st) \<inter> set (data_flow_no_receiver_arr st) = {}
         \<and> set (data_flow_no_sender_arr st) \<inter> set (data_flow_no_receiver_arr st) = {}
         \<and> (\<forall>data_type. flow_key [] data_type [] \<notin>
               set (data_flow_completed_arr st) \<union> set (data_flow_no_sender_arr st)
               \<union> set (data_flow_no_receiver_arr st))"
proof -
  have inv: "keys_from_rows st" using run by (rule keys_from_rows_run)
  have completed: "hd k \<noteq> CHR ''#'' \<and> last k \<noteq> CHR ''#''"
    if "k \<in> set (data_flow_completed_arr st)" for k
  proof -
    from inv that obtain row where row: "row \<in> set (data_output_arr st)" "k = row_key row"
      "out_data_sender row \<noteq> []" "out_data_receiver row \<noteq> []"
      by (auto simp: keys_from_rows_def list_all_iff list_ex_iff)
    from clean row(1) have "CHR ''#'' \<notin> set (out_data_sender row)"
      "CHR ''#'' \<notin> set (out_data_receiver row)" by simp_all
    with row(3,4) have "hd (out_data_sender row) \<noteq> CHR ''#''"
      "last (out_data_receiver row) \<noteq> CHR ''#''"
      using hd_in_set_str last_in_set by metis+
    with row show ?thesis by (simp add: row_key_def flow_key_hd flow_key_last)
  qed
  have no_sender: "hd k = CHR ''#'' \<and> last k \<noteq> CHR ''#''"
    if "k \<in> set (data_flow_no_sender_arr st)" for k
  proof -
    from inv that obtain row where row: "row \<in> set (data_output_arr st)" "k = row_key row"
      "out_data_sender row = []" "out_data_receiver row \<noteq> []"
      by (auto simp: keys_from_rows_def list_all_iff list_ex_iff)
    from clean row(1) have "CHR ''#'' \<notin> set (out_data_receiver row)" by simp
    with row(4) have "last (out_data_receiver row) \<noteq> CHR ''#''"
      using last_in_set by metis
    with row show ?thesis by (simp add: row_key_def flow_key_hd flow_key_last)
  qed
  have no_receiver: "hd k \<noteq> CHR ''#'' \<and> last k = CHR ''#''"
    if "k \<in> set (data_flow_no_receiver_arr st)" for k
  proof -
    from inv that obtain row where row: "row \<in> set (data_output_arr st)" "k = row_key row"
      "out_data_sender row \<noteq> []" "out_data_receiver row = []"
      by (auto simp: keys_from_rows_def list_all_iff list_ex_iff)
    from clean row(1) have "CHR ''#'' \<notin> set (out_data_sender row)" by simp
    with row(3) have "hd (out_data_sender row) \<noteq> CHR ''#''"
      using hd_in_set_str by metis
    with row show ?thesis by (simp add: row_key_def flow_key_hd flow_key_last)
  qed
  have both_empty: "hd (flow_key [] data_type []) = CHR ''#''
                    \<and> last (flow_key [] data_type []) = CHR ''#''" for data_type
    by (simp add: flow_key_hd flow_key_last)
  show ?thesis
    using completed no_sender no_receiver both_empty
    by (intro conjI; blast)
qed


lemma read_record_data_type:
  assumes "read_record ev text_dictrionary row = Inr r"
  shows "1 < length row \<and> raw_data_type r = row ! 1"
  using assms unfolding read_record_def py_getitem_def
  by (auto split: sum.splits option.splits if_splits)

lemma keys_dict_set_if_absent:
  "map fst (dict_set_if_absent d k v) = append_if_absent (map fst d) k"
  by (simp add: dict_set_if_absent_def dict_contains_def append_if_absent_def)

lemma accept_record_category_dic:
  assumes "accept_record ev main_party r data_category data_type data_sender data_receiver st = Inr st'"
  shows "data_category_dic st' = data_category_dic st"
  using accept_record_result[OF assms] by auto

lemma process_record_category_keys:
  assumes "process_record ev main_party st r = Inr st'"
  shows "map fst (data_category_dic st')
         = append_if_absent (map fst (data_category_dic st)) (raw_data_type r)"
proof -
  from process_record_result[OF assms] obtain data_category data_type data_sender data_receiver d'
    where c: "(\<not> valid_triple data_type data_sender data_receiver
        \<and> st' = st\<lparr>data_category_dic :=
                       dict_set_if_absent (data_category_dic st) (raw_data_type r) data_category,
                    abbreviation_dict := d'\<rparr>)
     \<or> (valid_triple data_type data_sender data_receiver
        \<and> accept_record ev main_party r data_category data_type data_sender data_receiver
             (st\<lparr>data_category_dic :=
                      dict_set_if_absent (data_category_dic st) (raw_data_type r) data_category,
                  abbreviation_dict := d'\<rparr>) = Inr st')"
    by blast
  then have "data_category_dic st'
             = dict_set_if_absent (data_category_dic st) (raw_data_type r) data_category"
    using accept_record_category_dic by fastforce
  then show ?thesis by (simp add: keys_dict_set_if_absent)
qed

lemma process_rows_category_keys:
  assumes "process_rows ev main_party text_dictrionary st rows = Inr st'"
  shows "map fst (data_category_dic st')
         = fold (\<lambda>row keys. append_if_absent keys (row ! 1)) rows (map fst (data_category_dic st))"
  using assms
proof (induction rows arbitrary: st)
  case Nil
  then show ?case by simp
next
  case (Cons row rows)
  from Cons.prems obtain st1 where
    s1: "row_step ev main_party text_dictrionary st row = Inr st1"
    and rest: "process_rows ev main_party text_dictrionary st1 rows = Inr st'"
    by (auto split: sum.splits)
  from row_step_result[OF s1] obtain r where
    r: "read_record ev text_dictrionary row = Inr r"
    and p: "process_record ev main_party st r = Inr st1" by blast
  have "map fst (data_category_dic st1)
        = append_if_absent (map fst (data_category_dic st)) (row ! 1)"
    using process_record_category_keys[OF p] read_record_data_type[OF r] by simp
  with Cons.IH[OF rest] show ?case by simp
qed

lemma set_fold_append_if_absent:
  "set (fold (\<lambda>row keys. append_if_absent keys (f row)) rows keys0) = set keys0 \<union> f ` set rows"
  by (induction rows arbitrary: keys0) (auto simp: append_if_absent_def)

lemma category_keys_raw:
  assumes "get_data_flow_graph_revised ev input_rows main_party text_rows = Inr st"
  shows "map fst (data_category_dic st)
           = fold (\<lambda>row keys. append_if_absent keys (row ! 1)) input_rows []
         \<and> set (map fst (data_category_dic st)) = (\<lambda>row. row ! 1) ` set input_rows"
proof -
  from assms obtain text_dictrionary where
    run: "process_rows ev main_party text_dictrionary initial_state input_rows = Inr st"
    by (auto simp: get_data_flow_graph_revised_def split: sum.splits)
  have keys: "map fst (data_category_dic st)
           = fold (\<lambda>row keys. append_if_absent keys (row ! 1)) input_rows []"
    using process_rows_category_keys[OF run] by (simp add: initial_state_def)
  show ?thesis
    unfolding keys using set_fold_append_if_absent[of "\<lambda>row. row ! 1" input_rows "[]"] by simp
qed







lemma two_records_run:
  "get_data_flow_graph_revised sample_env ([first_record] @ [second_record]) ''audi''
     sample_text_rows = Inr two_records_state"
  by code_simp

text \<open>
  Claim C7 as stated: the three sets of composite key strings are pairwise disjoint for
  every document. The key is the concatenation with \<open>#\<close> and entity strings may hold
  that character: the triples \<open>(#a, b, c)\<close> and \<open>(empty, a, b#c)\<close> have the same key,
  recorded once as completed and once as without sender.
\<close>

theorem flow_sets_share_key_counterexample:
  "map_sum id data_flow_completed_arr
     (get_data_flow_graph_revised sample_env delimiter_records ''audi'' sample_text_rows)
     = Inr [''#a#b#c'']
   \<and> map_sum id data_flow_no_sender_arr
     (get_data_flow_graph_revised sample_env delimiter_records ''audi'' sample_text_rows)
     = Inr [''#a#b#c'']"
  by code_simp


lemma three_records_eval:
  "(case get_data_flow_graph_revised sample_env three_records ''audi'' sample_text_rows of
      Inl e \<Rightarrow> False
    | Inr st \<Rightarrow>
        data_flow_completed_arr st = [''audi#email address#dealer'']
        \<and> data_flow_no_sender_arr st = [''#email address#audi'']
        \<and> data_flow_no_receiver_arr st = [''user#email address#'']
        \<and> map out_data_sender (data_output_arr st) = [''audi'', [], ''user'']
        \<and> map out_data_receiver (data_output_arr st) = [''dealer'', ''audi'', []])"
  by code_simp

lemma three_records_run:
  "get_data_flow_graph_revised sample_env three_records ''audi'' sample_text_rows
   = Inr three_records_state"
  using three_records_eval
  by (cases "get_data_flow_graph_revised sample_env three_records ''audi'' sample_text_rows")
     (simp_all add: three_records_state_def)

lemma three_records_flows:
  "data_flow_completed_arr three_records_state = [''audi#email address#dealer'']
   \<and> data_flow_no_sender_arr three_records_state = [''#email address#audi'']
   \<and> data_flow_no_receiver_arr three_records_state = [''user#email address#'']
   \<and> map out_data_sender (data_output_arr three_records_state) = [''audi'', [], ''user'']
   \<and> map out_data_receiver (data_output_arr three_records_state) = [''dealer'', ''audi'', []]"
  using three_records_eval by (simp add: three_records_run)

theorem accepted_triples_pairwise_distinct_witness:
  "map (\<lambda>row. (out_data_sender row, out_data_type row, out_data_receiver row))
       (data_output_arr two_records_state)
     = [(''audi'', ''email address'', ''dealer''), (''audi'', ''email address'', ''insurer'')]
   \<and> list_all (\<lambda>row. out_data_sender row \<noteq> out_data_type row
                      \<and> out_data_receiver row \<noteq> out_data_type row
                      \<and> out_data_sender row \<noteq> out_data_receiver row)
                (data_output_arr two_records_state)"
  using accepted_triples_pairwise_distinct [OF two_records_run]
  by (simp add: two_records_state_def)

theorem one_edge_per_ordered_pair_witness:
  "distinct (map (\<lambda>e. (edge_src e, edge_dst e)) (edges (G two_records_state)))
   \<and> filter (\<lambda>e. edge_src e = ''audi'' \<and> edge_dst e = ''email address'')
            (edges (G two_records_state))
     = [\<lparr>edge_src = ''audi'', edge_dst = ''email address'', edge_key = 0,
         edge_group = ''1'', edge_color = ''#e64545'',
         edge_description = ''We share your email address with dealers.'',
         edge_title = ''Marketing; '', edge_arrows = ''to''\<rparr>]"
  using one_edge_per_ordered_pair [OF two_records_run]
  by (simp add: two_records_state_def)

theorem flow_sets_disjoint_without_delimiter_witness:
  "data_flow_completed_arr three_records_state = [''audi#email address#dealer'']
   \<and> data_flow_no_sender_arr three_records_state = [''#email address#audi'']
   \<and> data_flow_no_receiver_arr three_records_state = [''user#email address#'']
   \<and> set (data_flow_completed_arr three_records_state)
       \<inter> set (data_flow_no_sender_arr three_records_state) = {}
   \<and> set (data_flow_completed_arr three_records_state)
       \<inter> set (data_flow_no_receiver_arr three_records_state) = {}
   \<and> set (data_flow_no_sender_arr three_records_state)
       \<inter> set (data_flow_no_receiver_arr three_records_state) = {}"
proof -
  have senders: "list_all (\<lambda>s. CHR ''#'' \<notin> set s)
                   (map out_data_sender (data_output_arr three_records_state))"
    and receivers: "list_all (\<lambda>s. CHR ''#'' \<notin> set s)
                   (map out_data_receiver (data_output_arr three_records_state))"
    using three_records_flows by simp_all
  have clean: "\<forall>row \<in> set (data_output_arr three_records_state).
                 CHR ''#'' \<notin> set (out_data_sender row) \<and> CHR ''#'' \<notin> set (out_data_receiver row)"
    using senders receivers by (simp add: list_all_iff)
  from flow_sets_disjoint_without_delimiter [OF three_records_run clean] three_records_flows
  show ?thesis by blast
qed

text \<open>
  Claim C10. The keys of the category map are the data type cells of the input rows
  exactly as read, in the order in which they are first seen, whatever the normalization
  does to them afterwards; there are documents whose key set is not contained in the node
  labels of the graph.
\<close>

theorem category_map_keyed_by_raw_data_type:
  assumes "get_data_flow_graph_revised ev input_rows main_party text_rows = Inr st"
  shows "map fst (data_category_dic st)
           = fold (\<lambda>row keys. append_if_absent keys (row ! 1)) input_rows []
         \<and> set (map fst (data_category_dic st)) = (\<lambda>row. row ! 1) ` set input_rows
         \<and> (\<exists>ev' input_rows' main_party' text_rows' st'.
               get_data_flow_graph_revised ev' input_rows' main_party' text_rows' = Inr st'
               \<and> \<not> set (map fst (data_category_dic st')) \<subseteq> set (map fst (nodes (G st'))))"
proof -
  have "\<not> set (map fst (data_category_dic two_records_state))
           \<subseteq> set (map fst (nodes (G two_records_state)))"
    by (simp add: two_records_state_def)
  with two_records_run have "\<exists>ev' input_rows' main_party' text_rows' st'.
               get_data_flow_graph_revised ev' input_rows' main_party' text_rows' = Inr st'
               \<and> \<not> set (map fst (data_category_dic st')) \<subseteq> set (map fst (nodes (G st')))"
    by blast
  with category_keys_raw [OF assms] show ?thesis by blast
qed

theorem category_map_keyed_by_raw_data_type_witness:
  "map fst (data_category_dic two_records_state) = [''Email Address'']
   \<and> map fst (nodes (G two_records_state)) = [''audi'', ''email address'', ''dealer'', ''insurer'']
   \<and> map out_data_type (data_output_arr two_records_state)
       = [''email address'', ''email address'']"
  using category_map_keyed_by_raw_data_type [OF two_records_run]
  by (simp add: two_records_state_def)


section \<open>Properties of the top-N selection\<close>

lemma length_py_sorted_by_score: "length (py_sorted_by_score r items) = length items"
  by (simp add: py_sorted_by_score_def)

lemma process_positive:
  "0 < top_n \<Longrightarrow> process input_data top_n = take (nat top_n) (py_sorted_by_score True input_data)"
  by (simp add: process_def py_slice_to_def)

lemma process_negative:
  "top_n < 0 \<Longrightarrow>
   process input_data top_n =
     take (length input_data - nat (- top_n)) (py_sorted_by_score False input_data)"
proof -
  assume neg: "top_n < 0"
  have "nat (int (length input_data) + top_n) = length input_data - nat (- top_n)"
    using neg by linarith
  with neg show ?thesis
    by (simp add: process_def py_slice_to_def length_py_sorted_by_score)
qed

lemma process_negative_length:
  "top_n < 0 \<Longrightarrow> length (process input_data top_n) = length input_data - nat (- top_n)"
  by (simp add: process_negative length_py_sorted_by_score)

text \<open>
  Claim C1. For a negative count \<open>N\<close> the selection is said to return the \<open>|N|\<close>
  lowest-scoring entries in ascending order; for \<open>N = -2\<close> on a five-node ranking, the
  two lowest. The code slices the ascending list with \<^verbatim>\<open>[:top_n]\<close>, and a negative
  bound drops the last \<open>|N|\<close> entries instead: on the five-node ranking the call returns
  the three lowest-scoring nodes, not two.
\<close>

theorem process_minus_two_on_five_nodes:
  "process five_node_ranking (- 2) = [(''a'', 1), (''b'', 2), (''c'', 3)]
   \<and> length (process five_node_ranking (- 2)) = 3
   \<and> process five_node_ranking 2 = [(''e'', 5), (''d'', 4)]"
  by (simp add: process_def py_slice_to_def py_sorted_by_score_def five_node_ranking_def)


section \<open>Properties of the derived scores\<close>

lemma truediv_all_nonzero:
  "d \<noteq> 0 \<Longrightarrow> truediv_all cs d = Inr (map (\<lambda>c. StatNum (of_nat c / of_nat d)) cs)"
  by (induction cs) (simp_all add: py_truediv_def)

lemma truediv_all_zero: "truediv_all (c # cs) 0 = Inl ZeroDivisionError"
  by (simp add: py_truediv_def)

lemma get_percentage_defined:
  "ranking \<noteq> Some [] \<Longrightarrow>
   get_percentage ranking entity_arr =
     Inr (case ranking of None \<Rightarrow> None
          | Some items \<Rightarrow> Some (of_nat (length (filter (\<lambda>item. fst item \<in> set entity_arr) items))
                                / of_nat (length items)))"
  by (cases ranking) (simp_all add: get_percentage_def py_truediv_def filter_map comp_def)

lemma stat_of_score_overlap:
  "stat_of_score (case ranking of None \<Rightarrow> None
          | Some items \<Rightarrow> Some (of_nat (length (filter (\<lambda>item. fst item \<in> set entity_arr) items))
                                / of_nat (length items))) = overlap_fraction ranking entity_arr"
  by (cases ranking) (simp_all add: stat_of_score_def overlap_fraction_def)

lemma derived_scores_nonzero:
  assumes c: "completed_arr \<noteq> []"
    and p: "first_party_arr @ user_party_arr @ third_party_arr \<noteq> []"
    and r: "get_network_stats nx option top_n \<noteq> Some []"
  shows "\<exists>shares. length shares = 7 \<and>
     derived_scores nx option top_n counts data_type_arr first_party_arr third_party_arr
       user_party_arr completed_arr no_sender_arr no_receiver_arr =
     Inr (StatInt (length completed_arr + length no_sender_arr
                   + length no_receiver_arr) # shares
          @ [StatNum (of_nat (length no_receiver_arr + length no_sender_arr)
                      / of_nat (length completed_arr)),
             StatNum (of_nat (length third_party_arr)
                      / of_nat (length first_party_arr + length user_party_arr
                                + length third_party_arr)),
             overlap_fraction (get_network_stats nx option top_n) first_party_arr,
             overlap_fraction (get_network_stats nx option top_n) third_party_arr,
             overlap_fraction (get_network_stats nx option top_n) data_type_arr])"
proof -
  let ?total = "length completed_arr + length no_sender_arr
                   + length no_receiver_arr"
  let ?shares = "map (\<lambda>c. StatNum (of_nat c / of_nat ?total))
       [count_u_2_f counts, count_f_2_f counts, count_t_2_f counts,
        count_u_2_t counts, count_f_2_t counts, count_t_2_t counts, count_f_2_u counts]"
  have total: "?total \<noteq> 0" using c by simp
  have parties: "length first_party_arr + length user_party_arr + length third_party_arr \<noteq> 0"
    using p by auto
  have completed: "length completed_arr \<noteq> 0" using c by simp
  have "derived_scores nx option top_n counts data_type_arr first_party_arr third_party_arr
       user_party_arr completed_arr no_sender_arr no_receiver_arr =
     Inr (StatInt ?total # ?shares
          @ [StatNum (of_nat (length no_receiver_arr + length no_sender_arr)
                      / of_nat (length completed_arr)),
             StatNum (of_nat (length third_party_arr)
                      / of_nat (length first_party_arr + length user_party_arr
                                + length third_party_arr)),
             overlap_fraction (get_network_stats nx option top_n) first_party_arr,
             overlap_fraction (get_network_stats nx option top_n) third_party_arr,
             overlap_fraction (get_network_stats nx option top_n) data_type_arr])"
    unfolding derived_scores_def Let_def
    by (simp only: truediv_all_nonzero[OF total] get_percentage_defined[OF r]
          stat_of_score_overlap sum.case)
       (use c p in \<open>auto simp add: py_truediv_def\<close>)
  moreover have "length ?shares = 7" by simp
  ultimately show ?thesis by blast
qed

lemma derived_scores_zero:
  assumes "completed_arr = [] \<or> first_party_arr @ user_party_arr @ third_party_arr = []"
  shows "derived_scores nx option top_n counts data_type_arr first_party_arr third_party_arr
       user_party_arr completed_arr no_sender_arr no_receiver_arr =
     Inl ZeroDivisionError"
proof (cases "length completed_arr + length no_sender_arr
                   + length no_receiver_arr = 0")
  case True
  then show ?thesis
    unfolding derived_scores_def Let_def by (simp add: py_truediv_def)
next
  case False
  show ?thesis
  proof (cases "completed_arr = []")
    case True
    then show ?thesis
      unfolding derived_scores_def Let_def
      by (simp only: truediv_all_nonzero[OF False] sum.case) (simp add: py_truediv_def)
  next
    case nonempty: False
    with assms have "first_party_arr = [] \<and> user_party_arr = [] \<and> third_party_arr = []" by simp
    then show ?thesis
      unfolding derived_scores_def Let_def
      by (simp only: truediv_all_nonzero[OF False] sum.case) (simp add: py_truediv_def nonempty)
  qed
qed


text \<open>
  Claim C2 as stated: a zero denominator in the transparency score, the third-party
  ratio or a top-N overlap never raises, it yields an explicit null. The code divides
  without a guard: a run with no completed flow, and a run whose top-N selection is
  empty (\<open>top_n = 0\<close>), both end in \<^verbatim>\<open>ZeroDivisionError\<close>.
\<close>

theorem derived_scores_zero_denominator_counterexample:
  "derived_scores sample_centralities ''centrality'' 2 sample_counts [''email'']
     [''audi''] [] [''user''] [] [''#email#audi''] [] = Inl ZeroDivisionError
   \<and> derived_scores sample_centralities ''centrality'' 0 sample_counts [''email'']
     [''audi''] [] [''user''] [''user#email#audi''] [] [] = Inl ZeroDivisionError"
  by (simp add: derived_scores_def py_truediv_def sample_counts_def sample_centralities_def
        get_network_stats_def get_percentage_def process_def py_slice_to_def
        py_sorted_by_score_def)

text \<open>
  Claim C2, amended. The scores are plain quotients. When a flow is completed, an entity
  is registered and the ranking result is not the empty list, the run yields the total,
  seven shares, the transparency score \<open>(|no_receiver| + |no_sender|) / |completed|\<close>,
  the third-party ratio \<open>|third| / (|first| + |user| + |third|)\<close> and the three
  overlap fractions, which are the explicit null exactly when the ranking is null
  (an option that names no centrality). When no flow is completed or no entity is
  registered the run raises \<^verbatim>\<open>ZeroDivisionError\<close>.
\<close>

theorem derived_scores_quotients:
  "(completed_arr \<noteq> [] \<and> first_party_arr @ user_party_arr @ third_party_arr \<noteq> []
      \<and> get_network_stats nx option top_n \<noteq> Some [] \<longrightarrow>
    (\<exists>shares. length shares = 7 \<and>
       derived_scores nx option top_n counts data_type_arr first_party_arr third_party_arr
         user_party_arr completed_arr no_sender_arr no_receiver_arr =
       Inr (StatInt (length completed_arr + length no_sender_arr
                     + length no_receiver_arr) # shares
            @ [StatNum (of_nat (length no_receiver_arr + length no_sender_arr)
                        / of_nat (length completed_arr)),
               StatNum (of_nat (length third_party_arr)
                        / of_nat (length first_party_arr + length user_party_arr
                                  + length third_party_arr)),
               overlap_fraction (get_network_stats nx option top_n) first_party_arr,
               overlap_fraction (get_network_stats nx option top_n) third_party_arr,
               overlap_fraction (get_network_stats nx option top_n) data_type_arr])))
   \<and> (completed_arr = [] \<or> first_party_arr @ user_party_arr @ third_party_arr = []
      \<longrightarrow>
      derived_scores nx option top_n counts data_type_arr first_party_arr third_party_arr
         user_party_arr completed_arr no_sender_arr no_receiver_arr =
      Inl ZeroDivisionError)
   \<and> overlap_fraction (None :: (string \<times> 's::linorder) list option) first_party_arr = StatNone"
  using derived_scores_nonzero [of completed_arr first_party_arr user_party_arr
      third_party_arr nx option top_n counts data_type_arr no_sender_arr
      no_receiver_arr]
    derived_scores_zero [of completed_arr first_party_arr user_party_arr
      third_party_arr nx option top_n counts data_type_arr no_sender_arr
      no_receiver_arr]
  by (simp add: overlap_fraction_def)

theorem derived_scores_quotients_witness:
  "\<exists>shares. length shares = 7 \<and>
     derived_scores sample_centralities ''centrality'' 2 sample_counts [''email'']
       [''audi''] [''dealer''] [''user''] eight_completed [''#email#audi''] [''audi#email#''] =
     Inr (StatInt 10 # shares @ [StatNum (1 / 4), StatNum (1 / 3), StatNum (1 / 2), StatNum 0,
                                 StatNum (1 / 2)])"
proof -
  have ranking: "get_network_stats sample_centralities ''centrality'' 2
                 = Some [(''audi'', 1), (''email'', 1)]"
    by (simp add: sample_centralities_def get_network_stats_def process_def py_slice_to_def
          py_sorted_by_score_def)
  have "eight_completed \<noteq> [] \<and> [''audi''] @ [''user''] @ [''dealer''] \<noteq> []
        \<and> get_network_stats sample_centralities ''centrality'' 2 \<noteq> Some []"
    by (simp add: ranking eight_completed_def)
  then obtain shares where len: "length shares = 7"
    and eq: "derived_scores sample_centralities ''centrality'' 2 sample_counts [''email'']
       [''audi''] [''dealer''] [''user''] eight_completed [''#email#audi''] [''audi#email#''] =
       Inr (StatInt (length eight_completed + length [''#email#audi''] + length [''audi#email#''])
            # shares
            @ [StatNum (of_nat (length [''audi#email#''] + length [''#email#audi''])
                        / of_nat (length eight_completed)),
               StatNum (of_nat (length [''dealer''])
                        / of_nat (length [''audi''] + length [''user''] + length [''dealer''])),
               overlap_fraction (get_network_stats sample_centralities ''centrality'' 2) [''audi''],
               overlap_fraction (get_network_stats sample_centralities ''centrality'' 2) [''dealer''],
               overlap_fraction (get_network_stats sample_centralities ''centrality'' 2) [''email'']])"
    using derived_scores_quotients [of eight_completed "[''audi'']" "[''user'']" "[''dealer'']"
      sample_centralities "''centrality''" 2 sample_counts "[''email'']" "[''#email#audi'']"
      "[''audi#email#'']"]
    by blast
  show ?thesis
    by (rule exI[of _ shares], simp only: eq len)
       (simp add: ranking eight_completed_def overlap_fraction_def)
qed

section \<open>Properties of the verification sampler\<close>


lemma py_int_nonneg: "0 \<le> q \<Longrightarrow> py_int q = \<lfloor>q\<rfloor>"
  by (simp add: py_int_def)






section \<open>Properties of tree detection\<close>

subsection \<open>Computing the connected nodes\<close>

lemma set_expand: "set (expand adj vs) = set vs \<union> set adj `` set vs"
  by (auto simp: expand_def Image_def intro: rev_image_eqI)

lemma set_funpow_expand:
  "set (((expand adj) ^^ n) vs) = (\<Union>k \<le> n. (set adj ^^ k) `` set vs)"
proof (induction n)
  case 0
  show ?case by simp
next
  case (Suc n)
  have "set (((expand adj) ^^ Suc n) vs)
        = set (((expand adj) ^^ n) vs) \<union> set adj `` set (((expand adj) ^^ n) vs)"
    by (simp add: set_expand)
  also have "\<dots> = (\<Union>k \<le> n. (set adj ^^ k) `` set vs)
                    \<union> set adj `` (\<Union>k \<le> n. (set adj ^^ k) `` set vs)"
    by (simp only: Suc.IH)
  also have "\<dots> = (\<Union>k \<le> Suc n. (set adj ^^ k) `` set vs)"
  proof (intro equalityI subsetI)
    fix x assume "x \<in> (\<Union>k \<le> n. (set adj ^^ k) `` set vs)
                    \<union> set adj `` (\<Union>k \<le> n. (set adj ^^ k) `` set vs)"
    then show "x \<in> (\<Union>k \<le> Suc n. (set adj ^^ k) `` set vs)"
    proof
      assume "x \<in> (\<Union>k \<le> n. (set adj ^^ k) `` set vs)"
      then show ?thesis using le_SucI by blast
    next
      assume "x \<in> set adj `` (\<Union>k \<le> n. (set adj ^^ k) `` set vs)"
      then obtain k y v where k: "k \<le> n" "v \<in> set vs" "(v, y) \<in> set adj ^^ k" "(y, x) \<in> set adj"
        by blast
      then have "(v, x) \<in> set adj ^^ Suc k" by auto
      with k(1,2) show ?thesis by (meson Image_iff UN_iff atMost_iff Suc_le_mono)
    qed
  next
    fix x assume "x \<in> (\<Union>k \<le> Suc n. (set adj ^^ k) `` set vs)"
    then obtain k v where k: "k \<le> Suc n" "v \<in> set vs" "(v, x) \<in> set adj ^^ k" by blast
    show "x \<in> (\<Union>k \<le> n. (set adj ^^ k) `` set vs)
                    \<union> set adj `` (\<Union>k \<le> n. (set adj ^^ k) `` set vs)"
    proof (cases k)
      case 0
      with k have "x \<in> (set adj ^^ 0) `` set vs" by simp
      then have "x \<in> (\<Union>k \<le> n. (set adj ^^ k) `` set vs)" by blast
      then show ?thesis by simp
    next
      case (Suc j)
      with k obtain y where "(v, y) \<in> set adj ^^ j" "(y, x) \<in> set adj" by auto
      moreover have "j \<le> n" using k(1) Suc by simp
      ultimately show ?thesis using k(2) by blast
    qed
  qed
  finally show ?case .
qed

lemma relpow_bounded_rtrancl:
  assumes "card (set adj) \<le> n"
  shows "(\<Union>k \<le> n. set adj ^^ k) = (set adj)\<^sup>*"
proof
  show "(\<Union>k \<le> n. set adj ^^ k) \<subseteq> (set adj)\<^sup>*"
    using relpow_imp_rtrancl by fastforce
  have "(set adj)\<^sup>* = (\<Union>k \<in> {k. k \<le> card (set adj)}. set adj ^^ k)"
    by (rule rtrancl_finite_eq_relpow) simp
  also have "\<dots> \<subseteq> (\<Union>k \<le> n. set adj ^^ k)"
    using assms by fastforce
  finally show "(set adj)\<^sup>* \<subseteq> (\<Union>k \<le> n. set adj ^^ k)" .
qed

lemma set_reached: "set (reached ug v) = (set (adjacency ug))\<^sup>* `` {v}"
proof -
  have "card (set (adjacency ug)) \<le> length (adjacency ug)" by (rule card_length)
  from relpow_bounded_rtrancl[OF this]
  have "(set (adjacency ug))\<^sup>* `` {v} = (\<Union>k \<le> length (adjacency ug). set (adjacency ug) ^^ k) `` {v}"
    by simp
  also have "\<dots> = (\<Union>k \<le> length (adjacency ug). (set (adjacency ug) ^^ k) `` {v})"
    by blast
  finally show ?thesis
    by (simp add: reached_def set_funpow_expand)
qed

lemma reachable_code [code]: "reachable ug v w = (w \<in> set (reached ug v))"
  by (simp add: reachable_def set_reached)

subsection \<open>Components and their induced subgraphs\<close>


















subsection \<open>The graphs the builder produces\<close>









subsection \<open>Tree detection on built graphs\<close>






end
